theory Spec2Isabelle
  imports Complex_Main
begin

section \<open>Data model of the forecasting pipeline (ensamblado.py)\<close>

text \<open>
  The pipeline works on pandas objects. A \<open>Series\<close> is a list of
  (row label, value) pairs, a \<open>DataFrame\<close> is a list of column names with a
  list of (row label, row) pairs. A numeric cell is a \<open>real option\<close>:
  \<open>None\<close> is the missing value (NaN), \<open>Some x\<close> the number \<open>x\<close>.
  Floating-point numbers are modelled by exact reals throughout.
  Python exceptions are values of type \<open>error\<close>; \<open>StageFailure\<close> stands
  for any exception of a library stage other than the two named ones.
\<close>

datatype error = ValueError | KeyError | StageFailure

type_synonym cell = "real option"

type_synonym 'a series = "(nat \<times> 'a) list"

record frame =
  columns :: "string list"
  rows :: "(nat \<times> cell list) list"

text \<open>A row is complete when none of its cells is missing.\<close>

definition complete_row :: "cell list \<Rightarrow> bool" where
  "complete_row r = list_all (\<lambda>c. c \<noteq> None) r"

subsection \<open>clean_data (lines 16-21)\<close>

text \<open>\<open>DataFrame.dropna()\<close>: the rows with a missing value are removed, the
  remaining rows keep their order and their labels.\<close>

definition dropna :: "frame \<Rightarrow> frame" where
  "dropna data = data\<lparr>rows := filter (\<lambda>(l, r). complete_row r) (rows data)\<rparr>"

definition clean_data :: "frame \<Rightarrow> frame" where
  "clean_data data = dropna data"

subsection \<open>Well-formed frames\<close>

text \<open>In a well-formed frame every row has one cell per column; a cell is addressed
  by the position of its row and of its column.\<close>

definition wf_frame :: "frame \<Rightarrow> bool" where
  "wf_frame data = list_all (\<lambda>(l, r). length r = length (columns data)) (rows data)"

definition cell_at :: "frame \<Rightarrow> nat \<Rightarrow> nat \<Rightarrow> cell" where
  "cell_at data i j = snd (rows data ! i) ! j"

subsection \<open>normalize_data (lines 24-30)\<close>

text \<open>
  \<open>MinMaxScaler().fit_transform(data)\<close> with the default feature range (0, 1).
  Fitting takes, per column, the minimum and the maximum of the values present
  (missing values are ignored), the range \<open>data_max - data_min\<close>,
  the factor \<open>scale = (1 - 0) / handle_zeros_in_scale(range)\<close> and the offset
  \<open>min = 0 - data_min * scale\<close>; transforming computes
  \<open>x * scale + min\<close> and leaves a missing value missing. A range below
  ten machine epsilons counts as constant and is replaced by 1. A column without
  any present value has no statistics (\<open>None\<close>). The scaler rejects a frame
  with no row or no column with a ValueError. The result frame is built by
  \<open>pd.DataFrame(data_scaled, columns=data.columns)\<close>: its rows are labelled
  afresh 0, 1, 2, ...
\<close>

definition eps :: real where
  "eps = 1 / 2 ^ 52"

definition present :: "cell list \<Rightarrow> real list" where
  "present cs = map the (filter (\<lambda>c. c \<noteq> None) cs)"

definition column_values :: "frame \<Rightarrow> nat \<Rightarrow> cell list" where
  "column_values data j = map (\<lambda>(l, r). r ! j) (rows data)"

record scaler =
  data_min' :: real
  data_max' :: real
  scale' :: real
  min' :: real

definition handle_zeros_in_scale :: "real \<Rightarrow> real" where
  "handle_zeros_in_scale s = (if s < 10 * eps then 1 else s)"

definition fit_column :: "cell list \<Rightarrow> scaler option" where
  "fit_column cs =
     (let vs = present cs in
      if vs = [] then None
      else
        let lo = Min (set vs); hi = Max (set vs);
            sc = (1 - 0) / handle_zeros_in_scale (hi - lo)
        in Some \<lparr>data_min' = lo, data_max' = hi, scale' = sc, min' = 0 - lo * sc\<rparr>)"

definition transform_cell :: "scaler option \<Rightarrow> cell \<Rightarrow> cell" where
  "transform_cell s c =
     (case s of None \<Rightarrow> None | Some p \<Rightarrow> map_option (\<lambda>x. x * scale' p + min' p) c)"

definition MinMaxScaler_fit :: "frame \<Rightarrow> scaler option list" where
  "MinMaxScaler_fit data =
     map (\<lambda>j. fit_column (column_values data j)) [0..<length (columns data)]"

definition MinMaxScaler_transform :: "scaler option list \<Rightarrow> frame \<Rightarrow> cell list list" where
  "MinMaxScaler_transform sc data = map (\<lambda>(l, r). map2 transform_cell sc r) (rows data)"

definition normalize_data :: "frame \<Rightarrow> error + frame \<times> scaler option list" where
  "normalize_data data =
     (if rows data = [] \<or> columns data = [] then Inl ValueError
      else
        let sc = MinMaxScaler_fit data;
            data_scaled = MinMaxScaler_transform sc data
        in Inr (\<lparr>columns = columns data,
                  rows = zip [0..<length data_scaled] data_scaled\<rparr>, sc))"

subsection \<open>The library stages\<close>

text \<open>
  The statistics and the two learners are library code. They are parameters of the
  model: the F statistic of one feature column against the target
  (\<open>f_regression\<close> is univariate), the mutual-information estimate, the grid
  search over support vector regressors and the training of the recurrent network.
  A fitted model is its \<open>predict\<close> function. \<open>SelectKBest_strict\<close> says
  how the installed release of the library treats a \<open>k\<close> above the number of
  features: it raises a ValueError (\<open>True\<close>) or it warns and keeps every
  feature (\<open>False\<close>).
\<close>

record library =
  SelectKBest_strict :: bool
  f_statistic :: "real list \<Rightarrow> real list \<Rightarrow> real"
  mutual_info_regression :: "real list list \<Rightarrow> real list \<Rightarrow> error + real list"
  GridSearchCV_fit :: "real list list \<Rightarrow> real list \<Rightarrow> error + (real list list \<Rightarrow> real list)"
  Sequential_fit :: "cell list list list \<Rightarrow> cell list \<Rightarrow> nat \<times> nat
                       \<Rightarrow> error + (cell list list list \<Rightarrow> real list list)"

text \<open>Running one fallible step after another: the first error ends the run.\<close>

definition and_then :: "'e + 'a \<Rightarrow> ('a \<Rightarrow> 'e + 'b) \<Rightarrow> 'e + 'b" where
  "and_then m f = (case m of Inl e \<Rightarrow> Inl e | Inr a \<Rightarrow> f a)"

text \<open>The input validation of the library: at least one sample and one feature,
  no missing value, as many targets as samples.\<close>

definition check_array :: "frame \<Rightarrow> error + real list list" where
  "check_array X =
     (if rows X = [] \<or> columns X = [] \<or> \<not> list_all (\<lambda>(l, r). complete_row r) (rows X)
      then Inl ValueError
      else Inr (map (\<lambda>(l, r). map the r) (rows X)))"

definition check_target :: "cell list \<Rightarrow> error + real list" where
  "check_target y =
     (if y = [] \<or> \<not> complete_row y then Inl ValueError else Inr (map the y))"

definition check_X_y :: "frame \<Rightarrow> cell series \<Rightarrow> error + real list list \<times> real list" where
  "check_X_y X y =
     and_then (check_array X) (\<lambda>Xa.
     and_then (check_target (map snd y)) (\<lambda>ya.
       if length Xa \<noteq> length ya then Inl ValueError else Inr (Xa, ya)))"

subsection \<open>select_features (lines 33-40)\<close>

text \<open>
  \<open>SelectKBest(score_func=f_regression, k).fit(X, y)\<close> scores every column and
  \<open>get_support(indices=True)\<close> gives the positions, in ascending order, of the
  \<open>k\<close> columns with the highest scores: the last \<open>k\<close> entries of the stable
  ascending argsort of the scores (none for \<open>k = 0\<close>).
\<close>

definition f_regression :: "library \<Rightarrow> nat \<Rightarrow> real list list \<Rightarrow> real list \<Rightarrow> real list" where
  "f_regression lib n_features Xa ya =
     map (\<lambda>j. f_statistic lib (map (\<lambda>r. r ! j) Xa) ya) [0..<n_features]"

definition SelectKBest_fit :: "library \<Rightarrow> nat \<Rightarrow> nat \<Rightarrow> real list list \<Rightarrow> real list
                                \<Rightarrow> error + real list" where
  "SelectKBest_fit lib k n_features Xa ya =
     (if SelectKBest_strict lib \<and> n_features < k then Inl ValueError
      else Inr (f_regression lib n_features Xa ya))"

definition argsort :: "real list \<Rightarrow> nat list" where
  "argsort scores = sort_key (\<lambda>i. scores ! i) [0..<length scores]"

definition get_support :: "real list \<Rightarrow> nat \<Rightarrow> nat list" where
  "get_support scores k =
     (if k = 0 then []
      else
        let best = drop (length scores - k) (argsort scores)
        in filter (\<lambda>i. i \<in> set best) [0..<length scores])"

definition select_features :: "library \<Rightarrow> frame \<Rightarrow> cell series \<Rightarrow> nat \<Rightarrow> error + string list" where
  "select_features lib X y num_features =
     and_then (check_X_y X y) (\<lambda>(Xa, ya).
     and_then (mutual_info_regression lib Xa ya) (\<lambda>mutual_info.
     and_then (SelectKBest_fit lib num_features (length (columns X)) Xa ya) (\<lambda>scores.
       Inr (map (\<lambda>i. columns X ! i) (get_support scores num_features)))))"

subsection \<open>train_lstm (lines 43-55) and optimize_svm (lines 58-65)\<close>

text \<open>The network is built and fitted by the library; any failure is the library's.\<close>

definition train_lstm :: "library \<Rightarrow> cell list list list \<Rightarrow> cell series \<Rightarrow> nat \<times> nat
                           \<Rightarrow> error + (cell list list list \<Rightarrow> real list list)" where
  "train_lstm lib X_train y_train input_shape =
     Sequential_fit lib X_train (map snd y_train) input_shape"

text \<open>\<open>GridSearchCV(SVR(), param_grid, refit=True, cv=5).fit\<close>: the 5-fold
  splitter raises a ValueError when there are fewer samples than folds.\<close>

definition optimize_svm :: "library \<Rightarrow> frame \<Rightarrow> cell series
                             \<Rightarrow> error + (real list list \<Rightarrow> real list)" where
  "optimize_svm lib X_train y_train =
     and_then (check_X_y X_train y_train) (\<lambda>(Xa, ya).
       if length Xa < 5 then Inl ValueError else GridSearchCV_fit lib Xa ya)"

subsection \<open>Operations of pandas and numpy used by generate_predictions\<close>

text \<open>Column names of a frame read by \<open>read_csv\<close> are distinct; a name is
  looked up at its first position. A missing name raises a KeyError.\<close>

definition index_of :: "string \<Rightarrow> string list \<Rightarrow> nat" where
  "index_of c cs = length (takeWhile (\<lambda>x. x \<noteq> c) cs)"

definition take_columns :: "nat list \<Rightarrow> frame \<Rightarrow> frame" where
  "take_columns js data =
     \<lparr>columns = map (\<lambda>j. columns data ! j) js,
      rows = map (\<lambda>(l, r). (l, map (\<lambda>j. r ! j) js)) (rows data)\<rparr>"

text \<open>\<open>data.drop(columns=[c])\<close>\<close>

definition drop_columns :: "string \<Rightarrow> frame \<Rightarrow> error + frame" where
  "drop_columns c data =
     (if c \<notin> set (columns data) then Inl KeyError
      else Inr (take_columns
                  (filter (\<lambda>j. columns data ! j \<noteq> c) [0..<length (columns data)]) data))"

text \<open>\<open>data[c]\<close> for one column name\<close>

definition getitem :: "string \<Rightarrow> frame \<Rightarrow> error + cell series" where
  "getitem c data =
     (if c \<notin> set (columns data) then Inl KeyError
      else Inr (map (\<lambda>(l, r). (l, r ! index_of c (columns data))) (rows data)))"

text \<open>\<open>data[cs]\<close> for a list of column names\<close>

definition getitem_list :: "string list \<Rightarrow> frame \<Rightarrow> error + frame" where
  "getitem_list cs data =
     (if \<not> list_all (\<lambda>c. c \<in> set (columns data)) cs then Inl KeyError
      else Inr (take_columns (map (\<lambda>c. index_of c (columns data)) cs) data))"

text \<open>\<open>pd.Series(values, index=idx)\<close> raises a ValueError unless there is one
  value per label.\<close>

definition pd_Series :: "'a list \<Rightarrow> nat list \<Rightarrow> error + 'a series" where
  "pd_Series vs idx = (if length vs = length idx then Inr (zip idx vs) else Inl ValueError)"

text \<open>\<open>np.median\<close> of a vector, and along axis 0 of a matrix given by its rows.\<close>

definition median :: "real list \<Rightarrow> real" where
  "median xs =
     (let s = sort xs; n = length s in
      if even n then (s ! (n div 2 - 1) + s ! (n div 2)) / 2 else s ! (n div 2))"

definition median_axis0 :: "real list list \<Rightarrow> real list" where
  "median_axis0 a = map (\<lambda>i. median (map (\<lambda>r. r ! i) a)) [0..<length (hd a)]"

text \<open>\<open>model.predict(X_test)\<close> of the fitted regressor validates its input.\<close>

definition predict_svm :: "(real list list \<Rightarrow> real list) \<Rightarrow> frame \<Rightarrow> error + real list" where
  "predict_svm model X = and_then (check_array X) (\<lambda>Xa. Inr (model Xa))"

text \<open>\<open>X.values.reshape((X.shape[0], 1, X.shape[1]))\<close>: every row becomes a
  sequence of one step.\<close>

definition reshape_lstm :: "frame \<Rightarrow> cell list list list" where
  "reshape_lstm X = map (\<lambda>(l, r). [r]) (rows X)"

subsection \<open>The metrics (lines 135-140)\<close>

text \<open>Both metrics validate their arguments: no missing value, at least one sample,
  equal lengths. The percentage error divides by \<open>max(|y_true|, eps)\<close>.\<close>

definition check_consistent :: "cell list \<Rightarrow> real list \<Rightarrow> error + real list \<times> real list" where
  "check_consistent y_true y_pred =
     and_then (check_target y_true) (\<lambda>t.
       if length t \<noteq> length y_pred then Inl ValueError else Inr (t, y_pred))"

definition mean_absolute_percentage_error :: "cell list \<Rightarrow> real list \<Rightarrow> error + real" where
  "mean_absolute_percentage_error y_true y_pred =
     and_then (check_consistent y_true y_pred) (\<lambda>(t, p).
       Inr (sum_list (map2 (\<lambda>a b. \<bar>b - a\<bar> / max \<bar>a\<bar> eps) t p) / real (length t)))"

definition mean_squared_error :: "cell list \<Rightarrow> real list \<Rightarrow> error + real" where
  "mean_squared_error y_true y_pred =
     and_then (check_consistent y_true y_pred) (\<lambda>(t, p).
       Inr (sum_list (map2 (\<lambda>a b. (a - b)\<^sup>2) t p) / real (length t)))"

subsection \<open>generate_predictions (lines 84-145)\<close>

text \<open>
  The function downloads a CSV file and reads it with \<open>read_csv\<close>. The model
  starts from the parsed file: the names of the columns other than \<open>Date\<close> and
  one record per line, a date with the cells of these columns. The rows of the frame
  read are labelled 0, 1, 2, ...
\<close>

definition target_column :: string where
  "target_column = ''Close''"

definition num_features :: nat where
  "num_features = 5"

text \<open>\<open>int(len(X) * 0.8)\<close>: the product truncated. The double-precision
  product of \<open>n\<close> and 0.8 truncates to the floor of the exact product for every
  \<open>n\<close> below \<open>2 ^ 50\<close>.\<close>

definition train_size :: "nat \<Rightarrow> nat" where
  "train_size n = nat \<lfloor>real n * (8 / 10)\<rfloor>"

text \<open>Lines 96-98: the date column is set aside, the numeric frame remains.\<close>

definition date_column :: "('d \<times> cell list) list \<Rightarrow> 'd series" where
  "date_column recs = zip [0..<length recs] (map fst recs)"

definition numeric_frame :: "string list \<Rightarrow> ('d \<times> cell list) list \<Rightarrow> frame" where
  "numeric_frame cols recs =
     \<lparr>columns = cols, rows = zip [0..<length recs] (map snd recs)\<rparr>"

text \<open>Lines 104-108: the features are chosen among the columns other than the
  target, and the target is appended.\<close>

definition selected_feature_set :: "library \<Rightarrow> frame \<Rightarrow> error + string list" where
  "selected_feature_set lib data =
     and_then (drop_columns target_column data) (\<lambda>X.
     and_then (getitem target_column data) (\<lambda>y.
     and_then (select_features lib X y num_features) (\<lambda>selected_features.
       Inr (selected_features @ [target_column]))))"

text \<open>Lines 100-113: cleaning, normalisation, feature selection, features and target.\<close>

definition prepare :: "library \<Rightarrow> frame \<Rightarrow> error + frame \<times> cell series" where
  "prepare lib data0 =
     and_then (normalize_data (clean_data data0)) (\<lambda>(data1, sc).
     and_then (selected_feature_set lib data1) (\<lambda>selected_features.
     and_then (getitem_list selected_features data1) (\<lambda>data2.
     and_then (drop_columns target_column data2) (\<lambda>X.
     and_then (getitem target_column data2) (\<lambda>y.
       Inr (X, y))))))"

text \<open>Lines 116-119: the split by position.\<close>

definition split_frame :: "nat \<Rightarrow> frame \<Rightarrow> frame \<times> frame" where
  "split_frame t X = (X\<lparr>rows := take t (rows X)\<rparr>, X\<lparr>rows := drop t (rows X)\<rparr>)"

definition split_series :: "nat \<Rightarrow> 'a series \<Rightarrow> 'a series \<times> 'a series" where
  "split_series t s = (take t s, drop t s)"

record 'd prediction_bundle =
  svm_predictions :: "real series"
  lstm_predictions :: "real series"
  combined_predictions :: "real series"
  mape_svm :: real
  mape_lstm :: real
  mape_combined :: real
  rmse_svm :: real
  rmse_lstm :: real
  rmse_combined :: real
  dates_test :: "'d series"
  y_test :: "cell series"

text \<open>Lines 121-145: training, prediction, combination, metrics, on a given split.\<close>

definition train_and_score ::
  "library \<Rightarrow> frame \<times> frame \<Rightarrow> cell series \<times> cell series \<Rightarrow> 'd series
    \<Rightarrow> error + 'd prediction_bundle" where
  "train_and_score lib Xs ys dates_te =
     (case (Xs, ys) of ((X_train, X_test), (y_train, y_te)) \<Rightarrow>
      let X_train_lstm = reshape_lstm X_train;
          X_test_lstm = reshape_lstm X_test;
          idx = map fst (rows X_test)
      in
      and_then (optimize_svm lib X_train y_train) (\<lambda>svm_model.
      and_then (train_lstm lib X_train_lstm y_train (1, length (columns X_train))) (\<lambda>lstm_model.
      and_then (predict_svm svm_model X_test) (\<lambda>svm_out.
      and_then (pd_Series svm_out idx) (\<lambda>svm_p.
      and_then (pd_Series (concat (lstm_model X_test_lstm)) idx) (\<lambda>lstm_p.
      and_then (pd_Series (median_axis0 [map snd svm_p, map snd lstm_p]) idx) (\<lambda>combined_p.
      and_then (mean_absolute_percentage_error (map snd y_te) (map snd svm_p)) (\<lambda>m_svm.
      and_then (mean_absolute_percentage_error (map snd y_te) (map snd lstm_p)) (\<lambda>m_lstm.
      and_then (mean_absolute_percentage_error (map snd y_te) (map snd combined_p)) (\<lambda>m_comb.
      and_then (mean_squared_error (map snd y_te) (map snd svm_p)) (\<lambda>s_svm.
      and_then (mean_squared_error (map snd y_te) (map snd lstm_p)) (\<lambda>s_lstm.
      and_then (mean_squared_error (map snd y_te) (map snd combined_p)) (\<lambda>s_comb.
        Inr \<lparr>svm_predictions = svm_p, lstm_predictions = lstm_p,
             combined_predictions = combined_p,
             mape_svm = m_svm, mape_lstm = m_lstm, mape_combined = m_comb,
             rmse_svm = sqrt s_svm, rmse_lstm = sqrt s_lstm, rmse_combined = sqrt s_comb,
             dates_test = dates_te, y_test = y_te\<rparr>)))))))))))))"

definition generate_predictions ::
  "library \<Rightarrow> string list \<Rightarrow> ('d \<times> cell list) list \<Rightarrow> error + 'd prediction_bundle" where
  "generate_predictions lib cols recs =
     (let dates = date_column recs;
          data = numeric_frame cols recs
      in
      and_then (prepare lib data) (\<lambda>(X, y).
        let t = train_size (length (rows X));
            dates_split = split_series t dates
        in train_and_score lib (split_frame t X) (split_series t y) (snd dates_split)))"

subsection \<open>Example inputs\<close>

text \<open>Two days of prices with the same volume on both days.\<close>

definition two_days :: frame where
  "two_days = \<lparr>columns = [''Close'', ''Volume''],
               rows = [(0, [Some 3, Some 7]), (1, [Some 5, Some 7])]\<rparr>"

text \<open>
  A download of eight trading days with the columns of the quote service. The
  volume of the third day is missing. \<open>eight_days_clean\<close>,
  \<open>eight_days_scaler\<close>, \<open>eight_days_scaled\<close>, \<open>eight_days_X\<close> and
  \<open>eight_days_y\<close> are the values the pipeline computes from it, stage by
  stage; \<open>eight_days_Xa\<close> and \<open>eight_days_ya\<close> are the arrays the library
  receives.
\<close>

definition yahoo_columns :: "string list" where
  "yahoo_columns = [''Open'', ''High'', ''Low'', ''Close'', ''Adj Close'', ''Volume'']"

definition eight_days :: "(nat \<times> cell list) list" where
  "eight_days =
     [(20210104, [Some 10, Some 12, Some 9, Some 11, Some 11, Some 100]),
      (20210105, [Some 11, Some 13, Some 10, Some 12, Some 12, Some 110]),
      (20210106, [Some 12, Some 14, Some 11, Some 13, Some 13, None]),
      (20210107, [Some 13, Some 15, Some 12, Some 14, Some 14, Some 130]),
      (20210108, [Some 14, Some 16, Some 13, Some 15, Some 15, Some 140]),
      (20210111, [Some 15, Some 17, Some 14, Some 16, Some 16, Some 150]),
      (20210112, [Some 16, Some 18, Some 15, Some 17, Some 17, Some 160]),
      (20210113, [Some 17, Some 19, Some 16, Some 18, Some 18, Some 170])]"

definition eight_days_clean :: frame where
  "eight_days_clean =
     \<lparr>columns = yahoo_columns,
      rows = [(0, [Some 10, Some 12, Some 9, Some 11, Some 11, Some 100]),
              (1, [Some 11, Some 13, Some 10, Some 12, Some 12, Some 110]),
              (3, [Some 13, Some 15, Some 12, Some 14, Some 14, Some 130]),
              (4, [Some 14, Some 16, Some 13, Some 15, Some 15, Some 140]),
              (5, [Some 15, Some 17, Some 14, Some 16, Some 16, Some 150]),
              (6, [Some 16, Some 18, Some 15, Some 17, Some 17, Some 160]),
              (7, [Some 17, Some 19, Some 16, Some 18, Some 18, Some 170])]\<rparr>"

definition eight_days_scaler :: "scaler option list" where
  "eight_days_scaler =
     [Some \<lparr>data_min' = 10, data_max' = 17, scale' = 1 / 7, min' = - (10 / 7)\<rparr>,
      Some \<lparr>data_min' = 12, data_max' = 19, scale' = 1 / 7, min' = - (12 / 7)\<rparr>,
      Some \<lparr>data_min' = 9, data_max' = 16, scale' = 1 / 7, min' = - (9 / 7)\<rparr>,
      Some \<lparr>data_min' = 11, data_max' = 18, scale' = 1 / 7, min' = - (11 / 7)\<rparr>,
      Some \<lparr>data_min' = 11, data_max' = 18, scale' = 1 / 7, min' = - (11 / 7)\<rparr>,
      Some \<lparr>data_min' = 100, data_max' = 170, scale' = 1 / 70, min' = - (100 / 70)\<rparr>]"

definition eight_days_scaled :: frame where
  "eight_days_scaled =
     \<lparr>columns = yahoo_columns,
      rows = [(0, [Some 0, Some 0, Some 0, Some 0, Some 0, Some 0]),
              (1, [Some (1 / 7), Some (1 / 7), Some (1 / 7), Some (1 / 7), Some (1 / 7), Some (1 / 7)]),
              (2, [Some (3 / 7), Some (3 / 7), Some (3 / 7), Some (3 / 7), Some (3 / 7), Some (3 / 7)]),
              (3, [Some (4 / 7), Some (4 / 7), Some (4 / 7), Some (4 / 7), Some (4 / 7), Some (4 / 7)]),
              (4, [Some (5 / 7), Some (5 / 7), Some (5 / 7), Some (5 / 7), Some (5 / 7), Some (5 / 7)]),
              (5, [Some (6 / 7), Some (6 / 7), Some (6 / 7), Some (6 / 7), Some (6 / 7), Some (6 / 7)]),
              (6, [Some 1, Some 1, Some 1, Some 1, Some 1, Some 1])]\<rparr>"

definition eight_days_X :: frame where
  "eight_days_X =
     \<lparr>columns = [''Open'', ''High'', ''Low'', ''Adj Close'', ''Volume''],
      rows = [(0, [Some 0, Some 0, Some 0, Some 0, Some 0]),
              (1, [Some (1 / 7), Some (1 / 7), Some (1 / 7), Some (1 / 7), Some (1 / 7)]),
              (2, [Some (3 / 7), Some (3 / 7), Some (3 / 7), Some (3 / 7), Some (3 / 7)]),
              (3, [Some (4 / 7), Some (4 / 7), Some (4 / 7), Some (4 / 7), Some (4 / 7)]),
              (4, [Some (5 / 7), Some (5 / 7), Some (5 / 7), Some (5 / 7), Some (5 / 7)]),
              (5, [Some (6 / 7), Some (6 / 7), Some (6 / 7), Some (6 / 7), Some (6 / 7)]),
              (6, [Some 1, Some 1, Some 1, Some 1, Some 1])]\<rparr>"

definition eight_days_y :: "cell series" where
  "eight_days_y = [(0, Some 0), (1, Some (1 / 7)), (2, Some (3 / 7)), (3, Some (4 / 7)), (4, Some (5 / 7)), (5, Some (6 / 7)), (6, Some 1)]"

definition eight_days_Xa :: "real list list" where
  "eight_days_Xa =
     [[0, 0, 0, 0, 0],
      [1 / 7, 1 / 7, 1 / 7, 1 / 7, 1 / 7],
      [3 / 7, 3 / 7, 3 / 7, 3 / 7, 3 / 7],
      [4 / 7, 4 / 7, 4 / 7, 4 / 7, 4 / 7],
      [5 / 7, 5 / 7, 5 / 7, 5 / 7, 5 / 7],
      [6 / 7, 6 / 7, 6 / 7, 6 / 7, 6 / 7],
      [1, 1, 1, 1, 1]]"

definition eight_days_ya :: "real list" where
  "eight_days_ya = [0, 1 / 7, 3 / 7, 4 / 7, 5 / 7, 6 / 7, 1]"

text \<open>
  An instance of the library stages, for running the pipeline on the example: the
  score of a column is the absolute inner product with the target, the regressor
  found by the grid search repeats the last training target, the network always
  answers 1.
\<close>

definition example_library :: "bool \<Rightarrow> library" where
  "example_library strict =
     \<lparr>SelectKBest_strict = strict,
      f_statistic = (\<lambda>c y. \<bar>sum_list (map2 (*) c y)\<bar>),
      mutual_info_regression = (\<lambda>X y. Inr (map (\<lambda>c. 0) (hd X))),
      GridSearchCV_fit = (\<lambda>X y. Inr (\<lambda>Xt. map (\<lambda>r. last y) Xt)),
      Sequential_fit = (\<lambda>X y shape. Inr (\<lambda>Xt. map (\<lambda>s. [1]) Xt))\<rparr>"

text \<open>The same download without the day whose volume is missing.\<close>

definition seven_days :: "(nat \<times> cell list) list" where
  "seven_days = filter (\<lambda>(d, r). complete_row r) eight_days"

section \<open>Cleaning\<close>

lemma rows_clean_data:
  "rows (clean_data data) = filter (\<lambda>(l, r). complete_row r) (rows data)"
  by (simp add: clean_data_def dropna_def)

lemma columns_clean_data: "columns (clean_data data) = columns data"
  by (simp add: clean_data_def dropna_def)

text \<open>
  Claim C8. Cleaning is idempotent: a second pass over a cleaned frame changes
  nothing. \<open>clean_data\<close> is a total function (it never raises); it only
  shrinks the series: the rows it returns are a subsequence of the input rows, all
  complete, and the column names are unchanged.
\<close>

theorem clean_data_idempotent:
  "clean_data (clean_data data) = clean_data data
   \<and> list_all (\<lambda>(l, r). complete_row r) (rows (clean_data data))
   \<and> length (rows (clean_data data)) \<le> length (rows data)
   \<and> columns (clean_data data) = columns data"
  by (simp add: clean_data_def dropna_def list_all_iff)

section \<open>Sequencing of fallible steps\<close>

lemma and_then_Inr_iff:
  "and_then m f = Inr b \<longleftrightarrow> (\<exists>a. m = Inr a \<and> f a = Inr b)"
  by (cases m) (simp_all add: and_then_def)

lemma and_then_Inr [simp]: "and_then (Inr a) f = f a"
  by (simp add: and_then_def)

lemma and_then_Inl [simp]: "and_then (Inl e) f = Inl e"
  by (simp add: and_then_def)

lemma eps_pos: "0 < eps"
  by (simp add: eps_def)

lemma complete_row_map_Some: "complete_row (map Some xs)"
  by (simp add: complete_row_def list_all_iff)

lemma check_target_Some:
  "check_target (map Some xs) = (if xs = [] then Inl ValueError else Inr xs)"
  by (simp add: check_target_def complete_row_map_Some comp_def)

lemma check_consistent_Some:
  "length actual = length predicted \<Longrightarrow>
   check_consistent (map Some actual) predicted =
     (if actual = [] then Inl ValueError else Inr (actual, predicted))"
  by (simp add: check_consistent_def check_target_Some)

lemma sum_list_zip_zero_iff:
  fixes f :: "real \<Rightarrow> real \<Rightarrow> real"
  assumes len: "length xs = length ys"
    and nonneg: "\<And>a b. 0 \<le> f a b"
    and zero: "\<And>a b. f a b = 0 \<longleftrightarrow> b = a"
  shows "sum_list (map2 f xs ys) = 0 \<longleftrightarrow> ys = xs"
  using len
proof (induction xs ys rule: list_induct2)
  case Nil
  then show ?case by simp
next
  case (Cons x xs y ys)
  have "0 \<le> sum_list (map2 f xs ys)"
    by (rule sum_list_nonneg) (auto simp: nonneg)
  with nonneg [of x y] have "f x y + sum_list (map2 f xs ys) = 0
      \<longleftrightarrow> f x y = 0 \<and> sum_list (map2 f xs ys) = 0"
    by linarith
  with Cons.IH zero [of x y] show ?case by auto
qed

lemma sum_list_zip_nonneg:
  fixes f :: "real \<Rightarrow> real \<Rightarrow> real"
  assumes "\<And>a b. 0 \<le> f a b"
  shows "0 \<le> sum_list (map2 f xs ys)"
  by (rule sum_list_nonneg) (auto simp: assms)

lemma ape_zero_iff: "\<bar>b - a\<bar> / max \<bar>a\<bar> eps = 0 \<longleftrightarrow> b = (a::real)"
  using eps_pos by (auto simp: max_def)

lemma ape_nonneg: "0 \<le> \<bar>b - a\<bar> / max \<bar>a\<bar> eps"
  using eps_pos by (simp add: max_def)

lemma sq_zero_iff: "(a - b)\<^sup>2 = 0 \<longleftrightarrow> b = (a::real)"
  by auto

section \<open>Metrics\<close>

text \<open>
  Claim C9. For every pair of equal-length vectors of actual and predicted values,
  the mean absolute percentage error and the root-mean-square error of the scoring
  step (the square root of the mean squared error) are computed whenever the vectors
  are not empty, and whenever they are computed each is greater than or equal to 0
  and equals 0 exactly when the predicted vector equals the actual vector.
\<close>

theorem metrics_nonneg_zero_iff:
  assumes len: "length actual = length predicted"
  shows "(actual \<noteq> [] \<longrightarrow>
            (\<exists>m v. mean_absolute_percentage_error (map Some actual) predicted = Inr m
                 \<and> mean_squared_error (map Some actual) predicted = Inr v))
       \<and> (\<forall>m. mean_absolute_percentage_error (map Some actual) predicted = Inr m
             \<longrightarrow> 0 \<le> m \<and> (m = 0 \<longleftrightarrow> predicted = actual))
       \<and> (\<forall>v. mean_squared_error (map Some actual) predicted = Inr v
             \<longrightarrow> 0 \<le> sqrt v \<and> (sqrt v = 0 \<longleftrightarrow> predicted = actual))"
proof (cases "actual = []")
  case True
  have "check_consistent [] predicted = Inl ValueError"
    by (simp add: check_consistent_def check_target_def)
  with True show ?thesis
    by (simp add: mean_absolute_percentage_error_def mean_squared_error_def)
next
  case False
  then have n: "0 < real (length actual)" by simp
  have m: "mean_absolute_percentage_error (map Some actual) predicted =
      Inr (sum_list (map2 (\<lambda>a b. \<bar>b - a\<bar> / max \<bar>a\<bar> eps) actual predicted) / real (length actual))"
    using len False by (simp add: mean_absolute_percentage_error_def check_consistent_Some)
  have v: "mean_squared_error (map Some actual) predicted =
      Inr (sum_list (map2 (\<lambda>a b. (a - b)\<^sup>2) actual predicted) / real (length actual))"
    using len False by (simp add: mean_squared_error_def check_consistent_Some)
  have m0: "0 \<le> sum_list (map2 (\<lambda>a b. \<bar>b - a\<bar> / max \<bar>a\<bar> eps) actual predicted)"
    by (rule sum_list_zip_nonneg) (rule ape_nonneg)
  have v0: "0 \<le> sum_list (map2 (\<lambda>a b. (a - b)\<^sup>2) actual predicted)"
    by (rule sum_list_zip_nonneg) simp
  have mz: "sum_list (map2 (\<lambda>a b. \<bar>b - a\<bar> / max \<bar>a\<bar> eps) actual predicted) = 0
      \<longleftrightarrow> predicted = actual"
    by (rule sum_list_zip_zero_iff [OF len]) (rule ape_nonneg, rule ape_zero_iff)
  have vz: "sum_list (map2 (\<lambda>a b. (a - b)\<^sup>2) actual predicted) = 0
      \<longleftrightarrow> predicted = actual"
    by (rule sum_list_zip_zero_iff [OF len]) (simp, rule sq_zero_iff)
  show ?thesis
    using n m0 v0 mz vz by (simp add: m v)
qed

theorem metrics_nonneg_zero_iff_witness:
  "length [2, 4 :: real] = length [3, 4 :: real]
   \<and> mean_absolute_percentage_error (map Some [2, 4]) [3, 4] = Inr (1 / 4)
   \<and> mean_squared_error (map Some [2, 4]) [3, 4] = Inr (1 / 2)
   \<and> (0 :: real) \<le> 1 / 4 \<and> (1 / 4 :: real) \<noteq> 0
   \<and> 0 \<le> sqrt (1 / 2) \<and> sqrt (1 / 2) \<noteq> 0
   \<and> [3, 4 :: real] \<noteq> [2, 4]"
proof -
  have m: "mean_absolute_percentage_error (map Some [2, 4]) [3, 4] = Inr (1 / 4)"
    by (simp add: mean_absolute_percentage_error_def check_consistent_def check_target_def
        complete_row_def eps_def)
  have v: "mean_squared_error (map Some [2, 4]) [3, 4] = Inr (1 / 2)"
    by (simp add: mean_squared_error_def check_consistent_def check_target_def
        complete_row_def)
  show ?thesis
    using metrics_nonneg_zero_iff [of "[2, 4]" "[3, 4]"] m v by simp
qed

section \<open>The ensemble combiner\<close>

lemma median_pair: "median [a, b] = (a + b) / 2"
  by (simp add: median_def Let_def)

lemma median_axis0_pair:
  "median_axis0 [xs, ys] = map (\<lambda>i. (xs ! i + ys ! i) / 2) [0..<length xs]"
  by (simp add: median_axis0_def median_pair)

section \<open>Normalisation\<close>

lemma present_mem: "v \<in> set (present cs) \<longleftrightarrow> Some v \<in> set cs"
  by (force simp: present_def image_iff)

lemma ten_eps: "0 < 10 * eps" "10 * eps < 1"
  by (simp_all add: eps_def)

lemma handle_zeros_pos: "0 < handle_zeros_in_scale s"
  using ten_eps by (simp add: handle_zeros_in_scale_def)

lemma transform_fit_column:
  assumes "Some v \<in> set cs"
  shows "transform_cell (fit_column cs) (Some v) =
           Some ((v - Min (set (present cs)))
                 / handle_zeros_in_scale (Max (set (present cs)) - Min (set (present cs))))"
proof -
  from assms have "present cs \<noteq> []"
    using present_mem [of v cs] by auto
  then show ?thesis
    by (simp add: transform_cell_def fit_column_def Let_def diff_divide_distrib)
qed

lemma transform_cell_None: "transform_cell s None = None"
  by (simp add: transform_cell_def split: option.splits)

lemma scaled_bounds:
  assumes "lo \<le> v" "v \<le> hi"
  shows "0 \<le> (v - lo) / handle_zeros_in_scale (hi - lo)"
    and "(v - lo) / handle_zeros_in_scale (hi - lo) \<le> 1"
proof -
  show "0 \<le> (v - lo) / handle_zeros_in_scale (hi - lo)"
    using assms handle_zeros_pos [of "hi - lo"] by simp
  show "(v - lo) / handle_zeros_in_scale (hi - lo) \<le> 1"
  proof (cases "hi - lo < 10 * eps")
    case True
    then show ?thesis
      using assms ten_eps by (simp add: handle_zeros_in_scale_def)
  next
    case False
    then have "0 < hi - lo" using ten_eps by linarith
    then show ?thesis
      using assms False by (simp add: handle_zeros_in_scale_def)
  qed
qed

lemma rows_normalize_data:
  assumes "normalize_data data = Inr (out, sc)"
  shows "sc = MinMaxScaler_fit data"
    and "columns out = columns data"
    and "rows out = zip [0..<length (rows data)]
                      (map (\<lambda>(l, r). map2 transform_cell sc r) (rows data))"
  using assms
  by (auto simp: normalize_data_def Let_def MinMaxScaler_transform_def split: if_splits)

lemma normalize_data_Inr:
  "rows data \<noteq> [] \<Longrightarrow> columns data \<noteq> [] \<Longrightarrow> \<exists>out sc. normalize_data data = Inr (out, sc)"
  by (simp add: normalize_data_def Let_def)

lemma cell_at_normalize_data:
  assumes n: "normalize_data data = Inr (out, sc)"
    and wf: "wf_frame data"
    and i: "i < length (rows data)" and j: "j < length (columns data)"
  shows "cell_at out i j = transform_cell (fit_column (column_values data j)) (cell_at data i j)"
proof -
  obtain l r where lr: "rows data ! i = (l, r)" by (cases "rows data ! i")
  with wf i have len: "length r = length (columns data)"
    by (auto simp: wf_frame_def list_all_length)
  have sc: "sc = MinMaxScaler_fit data" by (rule rows_normalize_data [OF n])
  have "cell_at out i j = map2 transform_cell sc r ! j"
    using i lr by (simp add: cell_at_def rows_normalize_data(3) [OF n])
  also have "\<dots> = transform_cell (sc ! j) (r ! j)"
    using j len by (simp add: sc MinMaxScaler_fit_def)
  also have "sc ! j = fit_column (column_values data j)"
    using j by (simp add: sc MinMaxScaler_fit_def)
  finally show ?thesis using lr by (simp add: cell_at_def)
qed

lemma cell_in_column:
  "i < length (rows data) \<Longrightarrow> cell_at data i j \<in> set (column_values data j)"
  by (force simp: cell_at_def column_values_def image_iff split: prod.splits
      intro: bexI [where x = "rows data ! i"])

lemma normalize_two_days:
  "normalize_data two_days =
     Inr (\<lparr>columns = [''Close'', ''Volume''],
           rows = [(0, [Some 0, Some 0]), (1, [Some 1, Some 0])]\<rparr>,
          [Some \<lparr>data_min' = 3, data_max' = 5, scale' = 1 / 2, min' = - (3 / 2)\<rparr>,
           Some \<lparr>data_min' = 7, data_max' = 7, scale' = 1, min' = - 7\<rparr>])"
  by (simp add: normalize_data_def two_days_def MinMaxScaler_fit_def MinMaxScaler_transform_def
      column_values_def fit_column_def present_def transform_cell_def handle_zeros_in_scale_def
      eps_def Let_def upt_rec)

text \<open>
  Claim C6, as amended. For every well-formed frame with at least one row and one
  column, \<open>normalize_data\<close> returns a frame with the same columns and as many
  rows, in which every column is rescaled from its own minimum \<open>lo\<close> and
  maximum \<open>hi\<close> alone: a missing value stays missing, every other value
  \<open>v\<close> becomes \<open>(v - lo) / (hi - lo)\<close>, or \<open>v - lo\<close> when the column is
  constant up to ten machine epsilons. Every such value lies in [0,1]; the column's
  minimum maps to exactly 0; the column's maximum maps to exactly 1 when
  \<open>hi - lo\<close> is at least ten machine epsilons.
\<close>

theorem normalize_data_range:
  assumes wf: "wf_frame data" and r: "rows data \<noteq> []" and c: "columns data \<noteq> []"
  shows "\<exists>out sc. normalize_data data = Inr (out, sc)
           \<and> columns out = columns data
           \<and> length (rows out) = length (rows data)
           \<and> (\<forall>i<length (rows data). \<forall>j<length (columns data).
                 case cell_at data i j of
                   None \<Rightarrow> cell_at out i j = None
                 | Some v \<Rightarrow>
                     (let lo = Min (set (present (column_values data j)));
                          hi = Max (set (present (column_values data j)))
                      in \<exists>w. cell_at out i j = Some w \<and> 0 \<le> w \<and> w \<le> 1
                           \<and> w = (v - lo) / (if hi - lo < 10 * eps then 1 else hi - lo)
                           \<and> (v = lo \<longrightarrow> w = 0)
                           \<and> (v = hi \<and> 10 * eps \<le> hi - lo \<longrightarrow> w = 1)))"
proof -
  from normalize_data_Inr [OF r c] obtain out sc where n: "normalize_data data = Inr (out, sc)"
    by blast
  have cell: "case cell_at data i j of
                None \<Rightarrow> cell_at out i j = None
              | Some v \<Rightarrow>
                  (let lo = Min (set (present (column_values data j)));
                       hi = Max (set (present (column_values data j)))
                   in \<exists>w. cell_at out i j = Some w \<and> 0 \<le> w \<and> w \<le> 1
                        \<and> w = (v - lo) / (if hi - lo < 10 * eps then 1 else hi - lo)
                        \<and> (v = lo \<longrightarrow> w = 0)
                        \<and> (v = hi \<and> 10 * eps \<le> hi - lo \<longrightarrow> w = 1))"
    if i: "i < length (rows data)" and j: "j < length (columns data)" for i j
  proof (cases "cell_at data i j")
    case None
    then show ?thesis
      by (simp add: cell_at_normalize_data [OF n wf i j] transform_cell_None)
  next
    case (Some v)
    define lo where "lo = Min (set (present (column_values data j)))"
    define hi where "hi = Max (set (present (column_values data j)))"
    have mem: "Some v \<in> set (column_values data j)"
      using cell_in_column [OF i, of j] Some by simp
    then have v: "v \<in> set (present (column_values data j))"
      by (simp add: present_mem)
    have lo: "lo \<le> v" unfolding lo_def using v by (intro Min_le) auto
    have hi: "v \<le> hi" unfolding hi_def using v by (intro Max_ge) auto
    have out: "cell_at out i j = Some ((v - lo) / handle_zeros_in_scale (hi - lo))"
      using transform_fit_column [OF mem]
      by (simp add: cell_at_normalize_data [OF n wf i j] Some lo_def hi_def)
    define w where "w = (v - lo) / (if hi - lo < 10 * eps then 1 else hi - lo)"
    have w: "w = (v - lo) / handle_zeros_in_scale (hi - lo)"
      by (simp add: w_def handle_zeros_in_scale_def)
    have one: "v = hi \<and> 10 * eps \<le> hi - lo \<longrightarrow> w = 1"
      using ten_eps by (auto simp: w_def)
    have zero: "v = lo \<longrightarrow> w = 0"
      by (simp add: w_def)
    have outw: "cell_at out i j = Some w"
      using out by (simp only: w)
    have b0: "0 \<le> w" and b1: "w \<le> 1"
      using scaled_bounds [OF lo hi] by (simp_all only: w)
    have "cell_at out i j = Some w \<and> 0 \<le> w \<and> w \<le> 1
            \<and> w = (v - lo) / (if hi - lo < 10 * eps then 1 else hi - lo)
            \<and> (v = lo \<longrightarrow> w = 0) \<and> (v = hi \<and> 10 * eps \<le> hi - lo \<longrightarrow> w = 1)"
      using outw b0 b1 one zero w_def by blast
    then have "\<exists>w. cell_at out i j = Some w \<and> 0 \<le> w \<and> w \<le> 1
            \<and> w = (v - lo) / (if hi - lo < 10 * eps then 1 else hi - lo)
            \<and> (v = lo \<longrightarrow> w = 0) \<and> (v = hi \<and> 10 * eps \<le> hi - lo \<longrightarrow> w = 1)"
      by (rule exI)
    then show ?thesis
      unfolding Some lo_def hi_def by (simp only: option.case Let_def)
  qed
  have "length (rows out) = length (rows data)"
    by (simp add: rows_normalize_data(3) [OF n])
  with n cell rows_normalize_data(2) [OF n] show ?thesis by blast
qed

theorem normalize_data_range_witness:
  "wf_frame two_days \<and> rows two_days \<noteq> [] \<and> columns two_days \<noteq> []
   \<and> (\<exists>out sc. normalize_data two_days = Inr (out, sc)
         \<and> columns out = columns two_days
         \<and> length (rows out) = length (rows two_days)
         \<and> cell_at out 0 0 = Some 0 \<and> cell_at out 1 0 = Some 1)"
proof -
  have h: "wf_frame two_days" "rows two_days \<noteq> []" "columns two_days \<noteq> []"
    by (simp_all add: two_days_def wf_frame_def)
  from normalize_data_range [OF h] obtain out sc
    where n: "normalize_data two_days = Inr (out, sc)"
      and c: "columns out = columns two_days"
      and l: "length (rows out) = length (rows two_days)"
    by blast
  from n have "cell_at out 0 0 = Some 0 \<and> cell_at out 1 0 = Some 1"
    by (auto simp: normalize_two_days cell_at_def)
  with h n c l show ?thesis by blast
qed

text \<open>
  The claim as stated fails on a constant column: in \<open>two_days\<close> the volume
  is 7 on both days, so 7 is the maximum of its column, and it is mapped to 0, not 1.
\<close>

theorem normalize_data_max_counterexample:
  "wf_frame two_days \<and> rows two_days \<noteq> []
   \<and> cell_at two_days 1 1 = Some 7
   \<and> Max (set (present (column_values two_days 1))) = 7
   \<and> map_sum id (\<lambda>(out, sc). cell_at out 1 1) (normalize_data two_days) = Inr (Some 0)"
  by (simp add: normalize_two_days cell_at_def)
     (simp add: two_days_def wf_frame_def present_def column_values_def)

section \<open>Feature selection\<close>

lemma argsort_props:
  "length (argsort s) = length s" "set (argsort s) = {0..<length s}" "distinct (argsort s)"
  by (simp_all add: argsort_def)

lemma argsort_sorted: "sorted (map (\<lambda>i. s ! i) (argsort s))"
  by (simp add: argsort_def)

lemma length_filter_mem:
  assumes "distinct tp" "set tp \<subseteq> {0..<n}"
  shows "length (filter (\<lambda>i. i \<in> set tp) [0..<n]) = length tp"
proof -
  have "set (filter (\<lambda>i. i \<in> set tp) [0..<n]) = set tp"
    using assms by auto
  moreover have "distinct (filter (\<lambda>i. i \<in> set tp) [0..<n])" by simp
  ultimately show ?thesis
    using assms(1) by (metis distinct_card)
qed

lemma set_get_support:
  "0 < k \<Longrightarrow> set (get_support s k) = set (drop (length s - k) (argsort s))"
  using set_drop_subset [of "length s - k" "argsort s"]
  by (auto simp: get_support_def Let_def argsort_props)

lemma length_get_support:
  assumes "k \<le> length s"
  shows "length (get_support s k) = k"
proof (cases "k = 0")
  case True
  then show ?thesis by (simp add: get_support_def)
next
  case False
  let ?tp = "drop (length s - k) (argsort s)"
  have "distinct ?tp" by (simp add: argsort_props)
  moreover have "set ?tp \<subseteq> {0..<length s}"
    using set_drop_subset [of "length s - k" "argsort s"] by (simp add: argsort_props)
  ultimately have "length (filter (\<lambda>i. i \<in> set ?tp) [0..<length s]) = length ?tp"
    by (rule length_filter_mem)
  with False assms show ?thesis
    by (simp add: get_support_def Let_def argsort_props)
qed

lemma get_support_all:
  assumes "length s < k"
  shows "get_support s k = [0..<length s]"
proof -
  have "filter (\<lambda>i. i \<in> set (argsort s)) [0..<length s] = [0..<length s]"
    by (rule filter_True) (simp add: argsort_props)
  with assms show ?thesis
    by (simp add: get_support_def Let_def)
qed

lemma get_support_bound: "i \<in> set (get_support s k) \<Longrightarrow> i < length s"
  by (auto simp: get_support_def Let_def split: if_splits)

lemma get_support_sorted: "sorted (get_support s k)" "distinct (get_support s k)"
  by (simp_all add: get_support_def Let_def sorted_wrt_filter)

lemma get_support_ranking:
  assumes i: "i \<in> set (get_support s k)" and j: "j < length s" "j \<notin> set (get_support s k)"
  shows "s ! j \<le> s ! i"
proof -
  from i have k: "0 < k" by (auto simp: get_support_def split: if_splits)
  let ?d = "length s - k"
  have split: "argsort s = take ?d (argsort s) @ drop ?d (argsort s)" by simp
  from i k have itop: "i \<in> set (drop ?d (argsort s))" by (simp add: set_get_support)
  from j k have "j \<notin> set (drop ?d (argsort s))" by (simp add: set_get_support)
  moreover from j have "j \<in> set (argsort s)" by (simp add: argsort_props)
  ultimately have jlow: "j \<in> set (take ?d (argsort s))"
    by (metis split UnE set_append)
  have "sorted (map (\<lambda>i. s ! i) (take ?d (argsort s)) @ map (\<lambda>i. s ! i) (drop ?d (argsort s)))"
    using argsort_sorted [of s] by (metis split map_append)
  then have "\<forall>x\<in>set (map (\<lambda>i. s ! i) (take ?d (argsort s))).
             \<forall>y\<in>set (map (\<lambda>i. s ! i) (drop ?d (argsort s))). x \<le> y"
    by (simp add: sorted_append)
  with jlow itop show ?thesis by auto
qed

lemma length_f_regression: "length (f_regression lib n Xa ya) = n"
  by (simp add: f_regression_def)

lemma select_features_Inr:
  assumes "check_X_y X y = Inr (Xa, ya)" "mutual_info_regression lib Xa ya = Inr mi"
    and "\<not> (SelectKBest_strict lib \<and> length (columns X) < k)"
  shows "select_features lib X y k =
           Inr (map (\<lambda>i. columns X ! i)
                  (get_support (f_regression lib (length (columns X)) Xa ya) k))"
  using assms by (simp add: select_features_def SelectKBest_fit_def)

lemma select_features_strict:
  assumes "check_X_y X y = Inr (Xa, ya)" "mutual_info_regression lib Xa ya = Inr mi"
    and "SelectKBest_strict lib" "length (columns X) < k"
  shows "select_features lib X y k = Inl ValueError"
  using assms by (simp add: select_features_def SelectKBest_fit_def)

lemma select_features_InrD:
  assumes "select_features lib X y k = Inr fs"
  shows "\<exists>Xa ya mi. check_X_y X y = Inr (Xa, ya) \<and> mutual_info_regression lib Xa ya = Inr mi
           \<and> \<not> (SelectKBest_strict lib \<and> length (columns X) < k)
           \<and> fs = map (\<lambda>i. columns X ! i)
                      (get_support (f_regression lib (length (columns X)) Xa ya) k)"
  using assms
  by (auto simp: select_features_def SelectKBest_fit_def and_then_Inr_iff split: if_splits)

section \<open>The split and the frame operations\<close>

lemma train_size_eq: "train_size n = 4 * n div 5"
proof -
  have "real n * (8 / 10) = real_of_int (4 * int n) / real_of_int 5" by simp
  then have "\<lfloor>real n * (8 / 10)\<rfloor> = (4 * int n) div 5"
    by (simp only: floor_divide_of_int_eq)
  then show ?thesis
    by (simp add: train_size_def nat_div_distrib nat_mult_distrib)
qed

lemma train_size_le: "train_size n \<le> n"
  by (simp add: train_size_eq)

lemma train_size_ge5: "5 \<le> train_size n \<longleftrightarrow> 7 \<le> n"
  by (simp add: train_size_eq) presburger

lemma map_fst_case: "map fst (map (\<lambda>(l, r). (l, f l r)) xs) = map fst xs"
  by (induction xs) auto

lemma labels_take_columns: "map fst (rows (take_columns js data)) = map fst (rows data)"
  by (auto simp: take_columns_def)

lemma nth_index_of: "c \<in> set cs \<Longrightarrow> cs ! index_of c cs = c"
  by (induction cs) (auto simp: index_of_def)

lemma map_nth_filter: "map ((!) xs) (filter (\<lambda>j. P (xs ! j)) [0..<length xs]) = filter P xs"
proof -
  have "filter P (map ((!) xs) [0..<length xs]) =
          map ((!) xs) (filter (P \<circ> (!) xs) [0..<length xs])"
    by (rule filter_map)
  then show ?thesis by (simp add: map_nth comp_def)
qed

lemma drop_columns_InrD:
  assumes "drop_columns c data = Inr X"
  shows "columns X = filter (\<lambda>x. x \<noteq> c) (columns data)"
    and "map fst (rows X) = map fst (rows data)"
    and "c \<in> set (columns data)"
proof -
  from assms have c: "c \<in> set (columns data)"
    and X: "X = take_columns (filter (\<lambda>j. columns data ! j \<noteq> c) [0..<length (columns data)]) data"
    by (auto simp: drop_columns_def split: if_splits)
  show "c \<in> set (columns data)" by (rule c)
  show "map fst (rows X) = map fst (rows data)"
    by (simp add: X labels_take_columns)
  have "columns X = map ((!) (columns data))
          (filter (\<lambda>j. columns data ! j \<noteq> c) [0..<length (columns data)])"
    by (simp add: X take_columns_def)
  then show "columns X = filter (\<lambda>x. x \<noteq> c) (columns data)"
    by (simp only: map_nth_filter [of "columns data" "\<lambda>x. x \<noteq> c"])
qed

lemma getitem_InrD:
  assumes "getitem c data = Inr y"
  shows "map fst y = map fst (rows data)" and "c \<in> set (columns data)"
  using assms by (auto simp: getitem_def map_fst_case split: if_splits)

lemma getitem_list_InrD:
  assumes "getitem_list cs data = Inr d"
  shows "map fst (rows d) = map fst (rows data)" and "columns d = cs"
proof -
  from assms have all: "list_all (\<lambda>c. c \<in> set (columns data)) cs"
    and d: "d = take_columns (map (\<lambda>c. index_of c (columns data)) cs) data"
    by (auto simp: getitem_list_def split: if_splits)
  show "map fst (rows d) = map fst (rows data)"
    by (simp add: d labels_take_columns)
  from all show "columns d = cs"
    by (simp add: d take_columns_def list_all_iff map_idI nth_index_of)
qed

section \<open>What a successful run returns\<close>

lemma labels_normalize_data:
  assumes "normalize_data data = Inr (out, sc)"
  shows "map fst (rows out) = [0..<length (rows data)]" and "rows data \<noteq> []"
proof -
  show "map fst (rows out) = [0..<length (rows data)]"
    by (simp add: rows_normalize_data(3) [OF assms])
  from assms show "rows data \<noteq> []"
    by (auto simp: normalize_data_def split: if_splits)
qed

lemma prepare_InrD:
  assumes "prepare lib data0 = Inr (X, y)"
  shows "map fst (rows X) = [0..<length (rows (clean_data data0))]"
    and "map fst y = [0..<length (rows (clean_data data0))]"
    and "rows (clean_data data0) \<noteq> []"
proof -
  from assms obtain data1 sc fs data2
    where n: "normalize_data (clean_data data0) = Inr (data1, sc)"
      and s: "getitem_list fs data1 = Inr data2"
      and X: "drop_columns target_column data2 = Inr X"
      and y: "getitem target_column data2 = Inr y"
    by (auto simp: prepare_def and_then_Inr_iff)
  have l2: "map fst (rows data2) = [0..<length (rows (clean_data data0))]"
    using getitem_list_InrD(1) [OF s] labels_normalize_data(1) [OF n] by simp
  show "map fst (rows X) = [0..<length (rows (clean_data data0))]"
    using drop_columns_InrD(2) [OF X] l2 by simp
  show "map fst y = [0..<length (rows (clean_data data0))]"
    using getitem_InrD(1) [OF y] l2 by simp
  show "rows (clean_data data0) \<noteq> []"
    by (rule labels_normalize_data(2) [OF n])
qed

lemma pd_Series_InrD:
  assumes "pd_Series vs idx = Inr s"
  shows "map fst s = idx" and "map snd s = vs" and "length vs = length idx"
  using assms by (auto simp: pd_Series_def split: if_splits)

lemma check_X_y_InrD:
  assumes "check_X_y X y = Inr (Xa, ya)"
  shows "length Xa = length (rows X)" and "length ya = length y" and "length y = length (rows X)"
  using assms
  by (auto simp: check_X_y_def check_array_def check_target_def and_then_Inr_iff
      split: if_splits)

lemma optimize_svm_InrD:
  assumes "optimize_svm lib X_train y_train = Inr m"
  shows "5 \<le> length (rows X_train)"
  using assms check_X_y_InrD(1) [of X_train y_train]
  by (auto simp: optimize_svm_def and_then_Inr_iff split: if_splits)

lemma train_and_score_InrD:
  assumes "train_and_score lib (X_train, X_test) (y_train, y_te) dates_te = Inr b"
  shows "5 \<le> length (rows X_train)"
    and "map fst (svm_predictions b) = map fst (rows X_test)"
    and "map fst (lstm_predictions b) = map fst (rows X_test)"
    and "map fst (combined_predictions b) = map fst (rows X_test)"
    and "map snd (combined_predictions b) =
           median_axis0 [map snd (svm_predictions b), map snd (lstm_predictions b)]"
    and "dates_test b = dates_te" and "y_test b = y_te"
    and "length y_te = length (rows X_test)"
proof -
  from assms obtain svm_model lstm_model svm_out svm_p lstm_p combined_p
      m_svm m_lstm m_comb s_svm s_lstm s_comb
    where svm: "optimize_svm lib X_train y_train = Inr svm_model"
      and p1: "pd_Series svm_out (map fst (rows X_test)) = Inr svm_p"
      and p2: "pd_Series (concat (lstm_model (reshape_lstm X_test))) (map fst (rows X_test))
                 = Inr lstm_p"
      and p3: "pd_Series (median_axis0 [map snd svm_p, map snd lstm_p]) (map fst (rows X_test))
                 = Inr combined_p"
      and m1: "mean_absolute_percentage_error (map snd y_te) (map snd svm_p) = Inr m_svm"
      and b: "b = \<lparr>svm_predictions = svm_p, lstm_predictions = lstm_p,
             combined_predictions = combined_p,
             mape_svm = m_svm, mape_lstm = m_lstm, mape_combined = m_comb,
             rmse_svm = sqrt s_svm, rmse_lstm = sqrt s_lstm, rmse_combined = sqrt s_comb,
             dates_test = dates_te, y_test = y_te\<rparr>"
    by (auto simp: train_and_score_def and_then_Inr_iff Let_def)
  show "5 \<le> length (rows X_train)" by (rule optimize_svm_InrD [OF svm])
  show "map fst (svm_predictions b) = map fst (rows X_test)"
    by (simp add: b pd_Series_InrD(1) [OF p1])
  show "map fst (lstm_predictions b) = map fst (rows X_test)"
    by (simp add: b pd_Series_InrD(1) [OF p2])
  show "map fst (combined_predictions b) = map fst (rows X_test)"
    by (simp add: b pd_Series_InrD(1) [OF p3])
  show "map snd (combined_predictions b) =
           median_axis0 [map snd (svm_predictions b), map snd (lstm_predictions b)]"
    by (simp add: b pd_Series_InrD(2) [OF p3])
  show "dates_test b = dates_te" "y_test b = y_te" by (simp_all add: b)
  from m1 have "length (map snd y_te) = length (map snd svm_p)"
    by (auto simp: mean_absolute_percentage_error_def check_consistent_def check_target_def
        and_then_Inr_iff split: if_splits)
  also have "\<dots> = length (map fst svm_p)" by simp
  also have "\<dots> = length (rows X_test)" by (simp only: pd_Series_InrD(1) [OF p1] length_map)
  finally show "length y_te = length (rows X_test)" by simp
qed


lemma generate_predictions_InrD:
  assumes "generate_predictions lib cols recs = Inr b"
    and n: "n = length (rows (clean_data (numeric_frame cols recs)))"
    and t: "t = train_size n"
  shows "7 \<le> n"
    and "map fst (svm_predictions b) = [t..<n]"
    and "map fst (lstm_predictions b) = [t..<n]"
    and "map fst (combined_predictions b) = [t..<n]"
    and "map fst (y_test b) = [t..<n]"
    and "map snd (combined_predictions b) =
           median_axis0 [map snd (svm_predictions b), map snd (lstm_predictions b)]"
    and "dates_test b = drop t (date_column recs)"
proof -
  from assms(1) obtain X y
    where prep: "prepare lib (numeric_frame cols recs) = Inr (X, y)"
      and run: "train_and_score lib (split_frame (train_size (length (rows X))) X)
                  (split_series (train_size (length (rows X))) y)
                  (snd (split_series (train_size (length (rows X))) (date_column recs))) = Inr b"
    by (auto simp: generate_predictions_def and_then_Inr_iff Let_def)
  have lX: "map fst (rows X) = [0..<n]" and ly: "map fst y = [0..<n]"
    using prepare_InrD(1,2) [OF prep] by (simp_all add: n)
  from lX have len: "length (rows X) = n"
    by (metis length_map length_upt diff_zero)
  have run': "train_and_score lib (X\<lparr>rows := take t (rows X)\<rparr>, X\<lparr>rows := drop t (rows X)\<rparr>)
                (take t y, drop t y) (drop t (date_column recs)) = Inr b"
    using run by (simp add: len t split_frame_def split_series_def)
  note r = train_and_score_InrD [OF run']
  have test: "map fst (drop t (rows X)) = [t..<n]"
    by (simp add: lX flip: drop_map)
  from r(1) have "5 \<le> train_size n"
    using train_size_le [of n] by (simp add: len t)
  then show "7 \<le> n" by (simp add: train_size_ge5)
  show "map fst (svm_predictions b) = [t..<n]" using r(2) test by simp
  show "map fst (lstm_predictions b) = [t..<n]" using r(3) test by simp
  show "map fst (combined_predictions b) = [t..<n]" using r(4) test by simp
  show "map fst (y_test b) = [t..<n]" using r(7) ly by (simp flip: drop_map)
  show "map snd (combined_predictions b) =
           median_axis0 [map snd (svm_predictions b), map snd (lstm_predictions b)]"
    by (rule r(5))
  show "dates_test b = drop t (date_column recs)" by (rule r(6))
qed

lemma get_support_whole:
  assumes "length s \<le> k"
  shows "get_support s k = [0..<length s]"
proof (cases "k = 0")
  case True
  with assms show ?thesis by (simp add: get_support_def)
next
  case False
  have "filter (\<lambda>i. i \<in> set (argsort s)) [0..<length s] = [0..<length s]"
    by (rule filter_True) (simp add: argsort_props)
  with assms False show ?thesis
    by (simp add: get_support_def Let_def)
qed

section \<open>The pipeline on the example\<close>

lemma clean_eight_days:
  "clean_data (numeric_frame yahoo_columns eight_days) = eight_days_clean"
  by (simp add: clean_data_def dropna_def numeric_frame_def eight_days_def complete_row_def
      eight_days_clean_def upt_rec)

lemma fit_eight_days: "MinMaxScaler_fit eight_days_clean = eight_days_scaler"
  by (simp add: MinMaxScaler_fit_def eight_days_clean_def yahoo_columns_def
      eight_days_scaler_def column_values_def fit_column_def present_def
      handle_zeros_in_scale_def eps_def Let_def upt_rec)

lemma transform_eight_days:
  "zip [0..<7] (MinMaxScaler_transform eight_days_scaler eight_days_clean)
     = rows eight_days_scaled"
  by (simp add: MinMaxScaler_transform_def eight_days_scaler_def eight_days_clean_def
      eight_days_scaled_def transform_cell_def upt_rec)

lemma normalize_eight_days:
  "normalize_data eight_days_clean = Inr (eight_days_scaled, eight_days_scaler)"
proof -
  have "rows eight_days_clean \<noteq> []" "columns eight_days_clean \<noteq> []"
    "length (rows eight_days_clean) = 7" "columns eight_days_clean = columns eight_days_scaled"
    by (simp_all add: eight_days_clean_def eight_days_scaled_def yahoo_columns_def)
  then show ?thesis
    using transform_eight_days
    by (simp add: normalize_data_def fit_eight_days Let_def MinMaxScaler_transform_def)
qed

lemma drop_close_eight_days:
  "drop_columns target_column eight_days_scaled = Inr eight_days_X"
  by (simp add: drop_columns_def target_column_def eight_days_scaled_def yahoo_columns_def
      take_columns_def eight_days_X_def upt_rec)

lemma close_eight_days: "getitem target_column eight_days_scaled = Inr eight_days_y"
  by (simp add: getitem_def target_column_def eight_days_scaled_def yahoo_columns_def
      index_of_def eight_days_y_def)

lemma check_eight_days:
  "check_X_y eight_days_X eight_days_y = Inr (eight_days_Xa, eight_days_ya)"
  by (simp add: check_X_y_def check_array_def check_target_def complete_row_def
      eight_days_X_def eight_days_y_def eight_days_Xa_def eight_days_ya_def
      del: not_None_eq)

lemma select_eight_days:
  "select_features (example_library strict) eight_days_X eight_days_y 5 =
     Inr [''Open'', ''High'', ''Low'', ''Adj Close'', ''Volume'']"
proof -
  have c: "columns eight_days_X = [''Open'', ''High'', ''Low'', ''Adj Close'', ''Volume'']"
    by (simp add: eight_days_X_def)
  have sel: "select_features (example_library strict) eight_days_X eight_days_y 5 =
          Inr (map (\<lambda>i. columns eight_days_X ! i)
                 (get_support (f_regression (example_library strict)
                    (length (columns eight_days_X)) eight_days_Xa eight_days_ya) 5))"
    by (rule select_features_Inr [OF check_eight_days])
       (simp_all add: example_library_def c)
  have gs: "get_support (f_regression (example_library strict)
                    (length (columns eight_days_X)) eight_days_Xa eight_days_ya) 5
              = [0..<length (columns eight_days_X)]"
    using get_support_whole [of "f_regression (example_library strict)
                    (length (columns eight_days_X)) eight_days_Xa eight_days_ya" 5]
    by (simp only: length_f_regression) (simp add: c)
  show ?thesis
    unfolding sel gs by (simp add: c)
qed

lemma features_eight_days:
  "selected_feature_set (example_library strict) eight_days_scaled =
     Inr [''Open'', ''High'', ''Low'', ''Adj Close'', ''Volume'', ''Close'']"
  by (simp add: selected_feature_set_def drop_close_eight_days close_eight_days
      num_features_def select_eight_days)
     (simp add: target_column_def)

lemma reorder_eight_days:
  "getitem_list [''Open'', ''High'', ''Low'', ''Adj Close'', ''Volume'', ''Close'']
     eight_days_scaled =
   Inr (eight_days_scaled
          \<lparr>columns := [''Open'', ''High'', ''Low'', ''Adj Close'', ''Volume'', ''Close'']\<rparr>)"
  by (simp add: getitem_list_def eight_days_scaled_def yahoo_columns_def index_of_def
      take_columns_def)

lemma drop_close_reordered:
  "drop_columns target_column (eight_days_scaled
          \<lparr>columns := [''Open'', ''High'', ''Low'', ''Adj Close'', ''Volume'', ''Close'']\<rparr>)
     = Inr eight_days_X"
  by (simp add: drop_columns_def target_column_def eight_days_scaled_def
      take_columns_def eight_days_X_def upt_rec)

lemma close_reordered:
  "getitem target_column (eight_days_scaled
          \<lparr>columns := [''Open'', ''High'', ''Low'', ''Adj Close'', ''Volume'', ''Close'']\<rparr>)
     = Inr eight_days_y"
  by (simp add: getitem_def target_column_def eight_days_scaled_def
      index_of_def eight_days_y_def)

lemma prepare_eight_days:
  "prepare (example_library strict) (numeric_frame yahoo_columns eight_days) =
     Inr (eight_days_X, eight_days_y)"
  by (simp add: prepare_def clean_eight_days normalize_eight_days features_eight_days
      reorder_eight_days drop_close_reordered close_reordered)

lemma run_eight_days:
  "map_sum id (\<lambda>b. (svm_predictions b, lstm_predictions b, combined_predictions b,
                       dates_test b, y_test b))
     (generate_predictions (example_library strict) yahoo_columns eight_days) =
   Inr ([(5, 5 / 7), (6, 5 / 7)], [(5, 1), (6, 1)], [(5, 6 / 7), (6, 6 / 7)],
        [(5, 20210111), (6, 20210112), (7, 20210113)],
        [(5, Some (6 / 7)), (6, Some 1)])"
proof -
  let ?Xtr = "eight_days_X\<lparr>rows := take 5 (rows eight_days_X)\<rparr>"
  let ?Xte = "eight_days_X\<lparr>rows := drop 5 (rows eight_days_X)\<rparr>"
  have t: "train_size (length (rows eight_days_X)) = 5"
    by (simp add: train_size_eq eight_days_X_def)
  have d: "drop 5 (date_column eight_days) = [(5, 20210111), (6, 20210112), (7, 20210113)]"
    by (simp add: date_column_def eight_days_def upt_rec)
  have svm: "optimize_svm (example_library strict) ?Xtr (take 5 eight_days_y)
               = Inr (\<lambda>Xt. map (\<lambda>r. 5 / 7) Xt)"
    by (simp add: optimize_svm_def check_X_y_def check_array_def check_target_def
        complete_row_def eight_days_X_def eight_days_y_def example_library_def
        del: not_None_eq)
  have lstm: "train_lstm (example_library strict) X y shape = Inr (\<lambda>Xt. map (\<lambda>s. [1]) Xt)"
    for X y shape
    by (simp add: train_lstm_def example_library_def)
  have test: "check_array ?Xte =
                Inr [[6 / 7, 6 / 7, 6 / 7, 6 / 7, 6 / 7], [1, 1, 1, 1, 1]]"
    by (simp add: check_array_def complete_row_def eight_days_X_def del: not_None_eq)
  have idx: "map fst (drop 5 (rows eight_days_X)) = [5, 6]"
    and len: "length (rows eight_days_X) = 7"
    and seqs: "reshape_lstm ?Xte = [[[Some (6 / 7), Some (6 / 7), Some (6 / 7), Some (6 / 7), Some (6 / 7)]],
                                    [[Some 1, Some 1, Some 1, Some 1, Some 1]]]"
    and yte: "drop 5 eight_days_y = [(5, Some (6 / 7)), (6, Some 1)]"
    by (simp_all add: eight_days_X_def reshape_lstm_def eight_days_y_def)
  show ?thesis
    apply (simp add: generate_predictions_def prepare_eight_days Let_def t d split_series_def
        split_frame_def)
    apply (simp add: train_and_score_def svm lstm predict_svm_def test idx len Let_def yte seqs
         pd_Series_def median_axis0_pair)
    apply (simp add: mean_absolute_percentage_error_def mean_squared_error_def
        check_consistent_def check_target_def complete_row_def eps_def upt_rec
        del: not_None_eq)
    done
qed

lemma run_eight_days_Inr:
  obtains b where "generate_predictions (example_library strict) yahoo_columns eight_days = Inr b"
    and "svm_predictions b = [(5, 5 / 7), (6, 5 / 7)]"
    and "lstm_predictions b = [(5, 1), (6, 1)]"
    and "combined_predictions b = [(5, 6 / 7), (6, 6 / 7)]"
    and "dates_test b = [(5, 20210111), (6, 20210112), (7, 20210113)]"
    and "y_test b = [(5, Some (6 / 7)), (6, Some 1)]"
  using run_eight_days [of strict]
  by (cases "generate_predictions (example_library strict) yahoo_columns eight_days :: error + nat prediction_bundle")
     auto

lemma rows_eight_days: "length (rows (clean_data (numeric_frame yahoo_columns eight_days))) = 7"
  by (simp add: clean_eight_days eight_days_clean_def)

section \<open>Shape of the result\<close>

text \<open>
  Claim C10. For every successful run of \<open>generate_predictions\<close> on a series
  with \<open>n\<close> rows after cleaning, the three prediction vectors and the
  ground-truth test vector all have length \<open>n - floor(0.8 n)\<close>, and all of
  them carry the row labels of the test split, \<open>floor(0.8 n), ..., n - 1\<close>.
\<close>

theorem prediction_vectors_aligned:
  assumes "generate_predictions lib cols recs = Inr b"
  shows "let n = length (rows (clean_data (numeric_frame cols recs))); t = train_size n in
           t = 4 * n div 5
           \<and> length (svm_predictions b) = n - t
           \<and> length (lstm_predictions b) = n - t
           \<and> length (combined_predictions b) = n - t
           \<and> length (y_test b) = n - t
           \<and> map fst (svm_predictions b) = [t..<n]
           \<and> map fst (lstm_predictions b) = [t..<n]
           \<and> map fst (combined_predictions b) = [t..<n]
           \<and> map fst (y_test b) = [t..<n]"
proof -
  define n where "n = length (rows (clean_data (numeric_frame cols recs)))"
  define t where "t = train_size n"
  note r = generate_predictions_InrD [OF assms n_def t_def]
  have len: "length s = n - t" if "map fst s = [t..<n]" for s :: "'x series"
  proof -
    from that have "length (map fst s) = length [t..<n]" by (rule arg_cong)
    then show ?thesis by simp
  qed
  have "t = 4 * n div 5" by (simp add: t_def train_size_eq)
  with r(2-5) len [OF r(2)] len [OF r(3)] len [OF r(4)] len [OF r(5)]
  have "t = 4 * n div 5
           \<and> length (svm_predictions b) = n - t
           \<and> length (lstm_predictions b) = n - t
           \<and> length (combined_predictions b) = n - t
           \<and> length (y_test b) = n - t
           \<and> map fst (svm_predictions b) = [t..<n]
           \<and> map fst (lstm_predictions b) = [t..<n]
           \<and> map fst (combined_predictions b) = [t..<n]
           \<and> map fst (y_test b) = [t..<n]"
    by blast
  then show ?thesis
    unfolding n_def t_def by (simp only: Let_def)
qed

theorem prediction_vectors_aligned_witness:
  "\<exists>b. generate_predictions (example_library True) yahoo_columns eight_days = Inr b
      \<and> length (svm_predictions b) = 2 \<and> length (lstm_predictions b) = 2
      \<and> length (combined_predictions b) = 2 \<and> length (y_test b) = 2
      \<and> map fst (svm_predictions b) = [5, 6] \<and> map fst (y_test b) = [5, 6]"
proof -
  obtain b :: "nat prediction_bundle"
    where b: "generate_predictions (example_library True) yahoo_columns eight_days = Inr b"
    by (rule run_eight_days_Inr)
  have t: "train_size 7 = 5" by (simp add: train_size_eq)
  have u: "[5..<7] = [5, 6 :: nat]" by (simp add: upt_rec)
  from prediction_vectors_aligned [OF b] have
    "length (svm_predictions b) = 2 \<and> length (lstm_predictions b) = 2
      \<and> length (combined_predictions b) = 2 \<and> length (y_test b) = 2
      \<and> map fst (svm_predictions b) = [5, 6] \<and> map fst (y_test b) = [5, 6]"
    unfolding rows_eight_days Let_def t u by simp
  with b show ?thesis by (intro exI [of _ b] conjI) simp_all
qed

section \<open>The ensemble\<close>

text \<open>
  Claim C2. The combined prediction is the elementwise median of the two prediction
  vectors: in every successful run, for every row of the test split, the combined
  prediction carries the same row label as the two predictions, it is the median of
  the two, which is their mean, and it lies between them.
\<close>

theorem ensemble_between:
  assumes run: "generate_predictions lib cols recs = Inr b"
    and i: "i < length (combined_predictions b)"
  shows "fst (combined_predictions b ! i) = fst (svm_predictions b ! i)
       \<and> fst (combined_predictions b ! i) = fst (lstm_predictions b ! i)
       \<and> snd (combined_predictions b ! i)
             = median [snd (svm_predictions b ! i), snd (lstm_predictions b ! i)]
       \<and> snd (combined_predictions b ! i)
             = (snd (svm_predictions b ! i) + snd (lstm_predictions b ! i)) / 2
       \<and> min (snd (svm_predictions b ! i)) (snd (lstm_predictions b ! i))
             \<le> snd (combined_predictions b ! i)
       \<and> snd (combined_predictions b ! i)
             \<le> max (snd (svm_predictions b ! i)) (snd (lstm_predictions b ! i))"
proof -
  note r = generate_predictions_InrD [OF run refl refl]
  have ls: "length (svm_predictions b) = length (combined_predictions b)"
    using r(2) r(4) by (metis length_map)
  have ll: "length (lstm_predictions b) = length (combined_predictions b)"
    using r(3) r(4) by (metis length_map)
  have fs: "fst (combined_predictions b ! i) = fst (svm_predictions b ! i)"
    using i ls r(2) r(4) by (metis nth_map)
  have fl: "fst (combined_predictions b ! i) = fst (lstm_predictions b ! i)"
    using i ll r(3) r(4) by (metis nth_map)
  have "snd (combined_predictions b ! i) = map snd (combined_predictions b) ! i"
    using i by simp
  also have "\<dots> = (map snd (svm_predictions b) ! i + map snd (lstm_predictions b) ! i) / 2"
    using i ls by (simp add: r(6) median_axis0_pair)
  also have "\<dots> = (snd (svm_predictions b ! i) + snd (lstm_predictions b ! i)) / 2"
    using i ls ll by simp
  finally have mean: "snd (combined_predictions b ! i)
             = (snd (svm_predictions b ! i) + snd (lstm_predictions b ! i)) / 2" .
  show ?thesis
    using fs fl mean by (simp add: median_pair min_def max_def)
qed

theorem ensemble_between_witness:
  "\<exists>b. generate_predictions (example_library True) yahoo_columns eight_days = Inr b
      \<and> (0 :: nat) < length (combined_predictions b)
      \<and> snd (svm_predictions b ! 0) = 5 / 7 \<and> snd (lstm_predictions b ! 0) = 1
      \<and> snd (combined_predictions b ! 0) = 6 / 7
      \<and> snd (combined_predictions b ! 0)
            = (snd (svm_predictions b ! 0) + snd (lstm_predictions b ! 0)) / 2"
proof -
  obtain b :: "nat prediction_bundle"
    where b: "generate_predictions (example_library True) yahoo_columns eight_days = Inr b"
      and s: "svm_predictions b = [(5, 5 / 7), (6, 5 / 7)]"
      and l: "lstm_predictions b = [(5, 1), (6, 1)]"
      and c: "combined_predictions b = [(5, 6 / 7), (6, 6 / 7)]"
    by (rule run_eight_days_Inr)
  have i: "0 < length (combined_predictions b)" by (simp add: c)
  from ensemble_between [OF b i] have
    "snd (combined_predictions b ! 0)
            = (snd (svm_predictions b ! 0) + snd (lstm_predictions b ! 0)) / 2"
    by simp
  with b i s l c show ?thesis by (intro exI [of _ b] conjI) simp_all
qed

section \<open>Short series\<close>

text \<open>
  Claim C7, as amended. A series that has fewer than 7 rows after cleaning makes
  the pipeline raise an error before any result is produced: at the latest the
  5-fold cross-validation of the grid search fails, since the training segment,
  the first \<open>floor(0.8 n)\<close> rows, has fewer than 5 rows, one per fold. The
  pipeline has no check of its own on the number of rows.
\<close>

theorem short_series_raises:
  assumes "length (rows (clean_data (numeric_frame cols recs))) < 7"
  shows "\<exists>e. generate_predictions lib cols recs = Inl e"
proof (cases "generate_predictions lib cols recs")
  case (Inl e)
  then show ?thesis by simp
next
  case (Inr b)
  from generate_predictions_InrD(1) [OF Inr refl refl] assms show ?thesis by simp
qed

theorem short_series_raises_witness:
  "length (rows (clean_data (numeric_frame yahoo_columns (take 6 eight_days)))) < 7
   \<and> (\<exists>e. generate_predictions (example_library True) yahoo_columns (take 6 eight_days) = Inl e)"
proof -
  have h: "length (rows (clean_data (numeric_frame yahoo_columns (take 6 eight_days)))) < 7"
    by (simp add: rows_clean_data numeric_frame_def eight_days_def complete_row_def upt_rec)
  from short_series_raises [OF h] h show ?thesis by simp
qed

text \<open>
  The claim as stated, with 25 rows as the bound, fails: the example has 7 rows
  after cleaning, and the run returns a result with two combined predictions.
\<close>

theorem no_insufficient_data_counterexample:
  "length (rows (clean_data (numeric_frame yahoo_columns eight_days))) = 7
   \<and> (7 :: nat) < 25
   \<and> \<not> isl (generate_predictions (example_library True) yahoo_columns eight_days)
   \<and> map_sum id (\<lambda>b. map snd (combined_predictions b))
         (generate_predictions (example_library True) yahoo_columns eight_days)
       = Inr [6 / 7, 6 / 7]"
proof -
  obtain b :: "nat prediction_bundle"
    where b: "generate_predictions (example_library True) yahoo_columns eight_days = Inr b"
      and c: "combined_predictions b = [(5, 6 / 7), (6, 6 / 7)]"
    by (rule run_eight_days_Inr)
  show ?thesis by (simp add: rows_eight_days b c)
qed

section \<open>Number of selected features\<close>

lemma mi_eight_days:
  "mutual_info_regression (example_library strict) eight_days_Xa eight_days_ya
     = Inr [0, 0, 0, 0, 0]"
  by (simp add: example_library_def eight_days_Xa_def)

text \<open>
  Claim C4, as amended. For every feature frame \<open>X\<close> and target \<open>y\<close>
  that pass the input validation and on which the mutual-information estimate
  succeeds, and every count \<open>k\<close>: \<open>select_features\<close> returns exactly
  \<open>k\<close> names of columns of \<open>X\<close> when \<open>X\<close> has at least \<open>k\<close>
  columns. When \<open>X\<close> has fewer than \<open>k\<close> columns the function has no
  check of its own and the outcome is the one of the library's selector: a
  ValueError where the selector rejects such a \<open>k\<close>, and otherwise all the
  columns of \<open>X\<close>, fewer than \<open>k\<close>, without an error.
\<close>

theorem select_features_size:
  assumes "check_X_y X y = Inr (Xa, ya)" and "mutual_info_regression lib Xa ya = Inr mi"
  shows "(k \<le> length (columns X) \<longrightarrow>
            (\<exists>fs. select_features lib X y k = Inr fs \<and> length fs = k
                  \<and> set fs \<subseteq> set (columns X)))
       \<and> (length (columns X) < k \<longrightarrow>
            select_features lib X y k =
              (if SelectKBest_strict lib then Inl ValueError else Inr (columns X)))"
proof (intro conjI impI)
  assume k: "k \<le> length (columns X)"
  let ?s = "f_regression lib (length (columns X)) Xa ya"
  have "select_features lib X y k = Inr (map (\<lambda>i. columns X ! i) (get_support ?s k))"
    using assms k by (intro select_features_Inr) auto
  moreover have "length (get_support ?s k) = k"
    using k by (simp add: length_get_support length_f_regression)
  moreover have "set (map (\<lambda>i. columns X ! i) (get_support ?s k)) \<subseteq> set (columns X)"
    using get_support_bound [of _ ?s k] by (auto simp: length_f_regression)
  ultimately show "\<exists>fs. select_features lib X y k = Inr fs \<and> length fs = k
                  \<and> set fs \<subseteq> set (columns X)"
    by simp
next
  assume k: "length (columns X) < k"
  show "select_features lib X y k =
          (if SelectKBest_strict lib then Inl ValueError else Inr (columns X))"
  proof (cases "SelectKBest_strict lib")
    case True
    with assms k show ?thesis by (simp add: select_features_strict)
  next
    case False
    with assms k show ?thesis
      by (simp add: select_features_Inr get_support_all length_f_regression map_nth)
  qed
qed

theorem select_features_size_witness:
  "check_X_y eight_days_X eight_days_y = Inr (eight_days_Xa, eight_days_ya)
   \<and> mutual_info_regression (example_library True) eight_days_Xa eight_days_ya
         = Inr [0, 0, 0, 0, 0]
   \<and> (5 :: nat) \<le> length (columns eight_days_X)
   \<and> (\<exists>fs. select_features (example_library True) eight_days_X eight_days_y 5 = Inr fs
           \<and> length fs = 5 \<and> set fs \<subseteq> set (columns eight_days_X))
   \<and> length (columns eight_days_X) < 6
   \<and> select_features (example_library True) eight_days_X eight_days_y 6 = Inl ValueError"
proof -
  have c: "length (columns eight_days_X) = 5" by (simp add: eight_days_X_def)
  have s: "SelectKBest_strict (example_library True)" by (simp add: example_library_def)
  from select_features_size [OF check_eight_days mi_eight_days [of True], where k = 5]
    select_features_size [OF check_eight_days mi_eight_days [of True], where k = 6]
  show ?thesis
    by (simp add: check_eight_days mi_eight_days c s)
qed

text \<open>
  The claim as stated fails where the selector only warns: asked for 6 of the 5
  columns of the example, \<open>select_features\<close> returns the 5 names and no error.
\<close>

theorem select_features_fewer_counterexample:
  "length (columns eight_days_X) < 6
   \<and> select_features (example_library False) eight_days_X eight_days_y 6
       = Inr [''Open'', ''High'', ''Low'', ''Adj Close'', ''Volume'']"
proof -
  have c: "columns eight_days_X = [''Open'', ''High'', ''Low'', ''Adj Close'', ''Volume'']"
    by (simp add: eight_days_X_def)
  have sel: "select_features (example_library False) eight_days_X eight_days_y 6 =
          Inr (map (\<lambda>i. columns eight_days_X ! i)
                 (get_support (f_regression (example_library False)
                    (length (columns eight_days_X)) eight_days_Xa eight_days_ya) 6))"
    by (rule select_features_Inr [OF check_eight_days])
       (simp_all add: example_library_def c)
  have gs: "get_support (f_regression (example_library False)
                    (length (columns eight_days_X)) eight_days_Xa eight_days_ya) 6
              = [0..<length (columns eight_days_X)]"
    using get_support_whole [of "f_regression (example_library False)
                    (length (columns eight_days_X)) eight_days_Xa eight_days_ya" 6]
    by (simp only: length_f_regression) (simp add: c)
  show ?thesis
    unfolding sel gs by (simp add: c)
qed

section \<open>What decides the selected features\<close>

lemma f_regression_update [simp]:
  "f_regression (lib\<lparr>mutual_info_regression := mi'\<rparr>) n Xa ya = f_regression lib n Xa ya"
  by (simp add: f_regression_def)

text \<open>
  Claim C5. \<open>select_features\<close> computes a mutual-information score and an
  F-test score, and the columns it returns are decided by the F-test scores alone.
  In the feature set of \<open>generate_predictions\<close>: the target column is removed
  before the scoring; the set is the names of the \<open>num_features\<close> columns
  with the highest F-test scores (no column left out has a higher score than a
  chosen one), followed by the target column; and the set is the same for any other
  mutual-information estimate that succeeds. The target column is its last element
  and is not among the scored features.
\<close>

theorem selected_feature_set_f_test_only:
  assumes "selected_feature_set lib data = Inr fs"
  shows "\<exists>X y Xa ya.
           drop_columns target_column data = Inr X
         \<and> getitem target_column data = Inr y
         \<and> check_X_y X y = Inr (Xa, ya)
         \<and> columns X = filter (\<lambda>c. c \<noteq> target_column) (columns data)
         \<and> (let scores = f_regression lib (length (columns X)) Xa ya;
                 chosen = get_support scores num_features
             in fs = map (\<lambda>i. columns X ! i) chosen @ [target_column]
              \<and> (\<forall>i\<in>set chosen. \<forall>j<length (columns X).
                     j \<notin> set chosen \<longrightarrow> scores ! j \<le> scores ! i))
         \<and> (\<forall>mi'. (\<exists>m. mi' Xa ya = Inr m) \<longrightarrow>
                selected_feature_set (lib\<lparr>mutual_info_regression := mi'\<rparr>) data = Inr fs)
         \<and> target_column \<notin> set (butlast fs) \<and> last fs = target_column"
proof -
  from assms obtain X y sel
    where X: "drop_columns target_column data = Inr X"
      and y: "getitem target_column data = Inr y"
      and sel: "select_features lib X y num_features = Inr sel"
      and fs: "fs = sel @ [target_column]"
    by (auto simp: selected_feature_set_def and_then_Inr_iff)
  from select_features_InrD [OF sel] obtain Xa ya mi
    where chk: "check_X_y X y = Inr (Xa, ya)"
      and mi: "mutual_info_regression lib Xa ya = Inr mi"
      and k: "\<not> (SelectKBest_strict lib \<and> length (columns X) < num_features)"
      and sel_eq: "sel = map (\<lambda>i. columns X ! i)
                      (get_support (f_regression lib (length (columns X)) Xa ya) num_features)"
    by blast
  define scores where "scores = f_regression lib (length (columns X)) Xa ya"
  define chosen where "chosen = get_support scores num_features"
  have cols: "columns X = filter (\<lambda>c. c \<noteq> target_column) (columns data)"
    by (rule drop_columns_InrD(1) [OF X])
  have rank: "\<forall>i\<in>set chosen. \<forall>j<length (columns X). j \<notin> set chosen \<longrightarrow> scores ! j \<le> scores ! i"
    using get_support_ranking [of _ scores num_features]
    by (auto simp: chosen_def scores_def length_f_regression)
  have other: "selected_feature_set (lib\<lparr>mutual_info_regression := mi'\<rparr>) data = Inr fs"
    if "\<exists>m. mi' Xa ya = Inr m" for mi'
  proof -
    from that obtain m where m: "mi' Xa ya = Inr m" by blast
    have "select_features (lib\<lparr>mutual_info_regression := mi'\<rparr>) X y num_features = Inr sel"
      using chk m k by (simp add: select_features_def SelectKBest_fit_def sel_eq)
    then show ?thesis
      by (simp add: selected_feature_set_def X y fs)
  qed
  have "set sel \<subseteq> set (columns X)"
    using get_support_bound [of _ "f_regression lib (length (columns X)) Xa ya" num_features]
    by (auto simp: sel_eq length_f_regression)
  then have notin: "target_column \<notin> set (butlast fs)"
    by (auto simp: fs cols)
  have "fs = map (\<lambda>i. columns X ! i) chosen @ [target_column]"
    by (simp add: fs sel_eq chosen_def scores_def)
  with rank have body: "let scores = f_regression lib (length (columns X)) Xa ya;
                 chosen = get_support scores num_features
             in fs = map (\<lambda>i. columns X ! i) chosen @ [target_column]
              \<and> (\<forall>i\<in>set chosen. \<forall>j<length (columns X).
                     j \<notin> set chosen \<longrightarrow> scores ! j \<le> scores ! i)"
    unfolding chosen_def scores_def by (simp only: Let_def) 
  have "last fs = target_column" by (simp add: fs)
  with X y chk cols body other notin show ?thesis by blast
qed

theorem selected_feature_set_f_test_only_witness:
  "selected_feature_set (example_library True) eight_days_scaled
     = Inr [''Open'', ''High'', ''Low'', ''Adj Close'', ''Volume'', ''Close'']
   \<and> (\<exists>X y Xa ya.
           drop_columns target_column eight_days_scaled = Inr X
         \<and> getitem target_column eight_days_scaled = Inr y
         \<and> check_X_y X y = Inr (Xa, ya)
         \<and> target_column \<notin> set (columns X)
         \<and> selected_feature_set
              ((example_library True)\<lparr>mutual_info_regression := (\<lambda>X y. Inr [])\<rparr>)
              eight_days_scaled
             = Inr [''Open'', ''High'', ''Low'', ''Adj Close'', ''Volume'', ''Close''])"
proof -
  from selected_feature_set_f_test_only [OF features_eight_days [of True]]
  obtain X y Xa ya
    where "drop_columns target_column eight_days_scaled = Inr X"
      and "getitem target_column eight_days_scaled = Inr y"
      and "check_X_y X y = Inr (Xa, ya)"
      and "columns X = filter (\<lambda>c. c \<noteq> target_column) (columns eight_days_scaled)"
      and "\<forall>mi'. (\<exists>m. mi' Xa ya = Inr m) \<longrightarrow>
             selected_feature_set ((example_library True)\<lparr>mutual_info_regression := mi'\<rparr>)
               eight_days_scaled
             = Inr [''Open'', ''High'', ''Low'', ''Adj Close'', ''Volume'', ''Close'']"
    by blast
  then show ?thesis
    using features_eight_days [of True] by (intro conjI exI [of _ X] exI [of _ y] exI [of _ Xa] exI [of _ ya]) auto
qed

section \<open>The split\<close>

lemma column_values_snd:
  "column_values data j = map (\<lambda>r. r ! j) (map snd (rows data))"
  by (simp add: column_values_def case_prod_unfold comp_def)

lemma normalize_data_cong:
  assumes c: "columns a = columns b" and r: "map snd (rows a) = map snd (rows b)"
  shows "normalize_data a = normalize_data b"
proof -
  have fit: "MinMaxScaler_fit a = MinMaxScaler_fit b"
    by (simp add: MinMaxScaler_fit_def column_values_snd c r)
  have T: "MinMaxScaler_transform sc d = map (map2 transform_cell sc) (map snd (rows d))"
    for sc d
    by (simp add: MinMaxScaler_transform_def case_prod_unfold comp_def)
  have tr: "MinMaxScaler_transform sc a = MinMaxScaler_transform sc b" for sc
    unfolding T r ..
  from r have "length (map snd (rows a)) = length (map snd (rows b))" by simp
  then have e: "rows a = [] \<longleftrightarrow> rows b = []" by auto
  show ?thesis
    by (simp add: normalize_data_def fit tr c e)
qed

lemma clean_complete:
  assumes "list_all (\<lambda>(d, r). complete_row r) recs"
  shows "clean_data (numeric_frame cols recs) = numeric_frame cols recs"
proof -
  have "filter (\<lambda>(l, r). complete_row r) (zip [0..<length recs] (map snd recs))
          = zip [0..<length recs] (map snd recs)"
    using assms by (intro filter_True) (force simp: list_all_iff dest!: set_zip_rightD)
  then show ?thesis
    by (simp add: clean_data_def dropna_def numeric_frame_def)
qed

lemma seven_days_eq:
  "seven_days =
     [(20210104, [Some 10, Some 12, Some 9, Some 11, Some 11, Some 100]),
      (20210105, [Some 11, Some 13, Some 10, Some 12, Some 12, Some 110]),
      (20210107, [Some 13, Some 15, Some 12, Some 14, Some 14, Some 130]),
      (20210108, [Some 14, Some 16, Some 13, Some 15, Some 15, Some 140]),
      (20210111, [Some 15, Some 17, Some 14, Some 16, Some 16, Some 150]),
      (20210112, [Some 16, Some 18, Some 15, Some 17, Some 17, Some 160]),
      (20210113, [Some 17, Some 19, Some 16, Some 18, Some 18, Some 170])]"
  by (simp add: seven_days_def eight_days_def complete_row_def)

lemma seven_days_complete: "list_all (\<lambda>(d, r). complete_row r) seven_days"
  by (simp add: seven_days_def list_all_iff)

lemma prepare_seven_days:
  "prepare (example_library strict) (numeric_frame yahoo_columns seven_days) =
     Inr (eight_days_X, eight_days_y)"
proof -
  have "normalize_data (clean_data (numeric_frame yahoo_columns seven_days))
          = normalize_data eight_days_clean"
    unfolding clean_complete [OF seven_days_complete]
    by (rule normalize_data_cong)
       (simp_all add: numeric_frame_def eight_days_clean_def seven_days_eq)
  then show ?thesis
    by (simp add: prepare_def normalize_eight_days features_eight_days
      reorder_eight_days drop_close_reordered close_reordered)
qed

text \<open>
  Claim C3. For every series in which no value is missing (a cleaned series), of
  \<open>n\<close> records in ascending date order, on which the preparation succeeds:
  \<open>generate_predictions\<close> trains and scores on the split by position at
  \<open>floor(0.8 n)\<close>. The training segment is the first \<open>floor(0.8 n)\<close> rows
  and the test segment the remaining rows, in their order; the date segments are the
  dates of the same records; and every date of the training segment is less than or
  equal to every date of the test segment.
\<close>

theorem split_positional_ordered:
  fixes recs :: "('d::linorder \<times> cell list) list"
  assumes prep: "prepare lib (numeric_frame cols recs) = Inr (X, y)"
    and cleaned: "list_all (\<lambda>(d, r). complete_row r) recs"
    and ascending: "sorted (map fst recs)"
  shows "let n = length recs; t = train_size n;
             X_train = fst (split_frame t X); X_test = snd (split_frame t X);
             dates_train = fst (split_series t (date_column recs));
             dates_te = snd (split_series t (date_column recs))
         in generate_predictions lib cols recs
              = train_and_score lib (split_frame t X) (split_series t y) dates_te
          \<and> length (rows X) = n \<and> t = 4 * n div 5
          \<and> rows X_train = take t (rows X) \<and> rows X_test = drop t (rows X)
          \<and> map fst (rows X_train) = [0..<t] \<and> map fst (rows X_test) = [t..<n]
          \<and> dates_train = zip [0..<t] (take t (map fst recs))
          \<and> dates_te = zip [t..<n] (drop t (map fst recs))
          \<and> (\<forall>d\<in>set (map snd dates_train). \<forall>d'\<in>set (map snd dates_te). d \<le> d')"
proof -
  define n where "n = length recs"
  define t where "t = train_size n"
  have tn: "t \<le> n" by (simp add: t_def train_size_le)
  have rows_n: "length (rows (clean_data (numeric_frame cols recs))) = n"
    unfolding clean_complete [OF cleaned] by (simp add: numeric_frame_def n_def)
  have lX: "map fst (rows X) = [0..<n]"
    using prepare_InrD(1) [OF prep] by (simp add: rows_n)
  then have len: "length (rows X) = n"
    by (metis length_map length_upt diff_zero)
  have gp: "generate_predictions lib cols recs
              = train_and_score lib (split_frame t X) (split_series t y)
                  (snd (split_series t (date_column recs)))"
    by (simp add: generate_predictions_def prep Let_def len t_def)
  have tr: "map fst (take t (rows X)) = [0..<t]"
    using tn by (simp add: lX min_def flip: take_map)
  have te: "map fst (drop t (rows X)) = [t..<n]"
    by (simp add: lX flip: drop_map)
  have dtr: "take t (date_column recs) = zip [0..<t] (take t (map fst recs))"
    using tn by (simp add: date_column_def take_zip min_def flip: n_def)
  have dte: "drop t (date_column recs) = zip [t..<n] (drop t (map fst recs))"
    by (simp add: date_column_def drop_zip flip: n_def)
  have "sorted (take t (map fst recs) @ drop t (map fst recs))"
    using ascending by simp
  then have ord: "\<forall>d\<in>set (take t (map fst recs)). \<forall>d'\<in>set (drop t (map fst recs)). d \<le> d'"
    by (simp only: sorted_append) blast
  have s1: "map snd (zip [0..<t] (take t (map fst recs))) = take t (map fst recs)"
    using tn by (intro map_snd_zip) (simp add: n_def)
  have s2: "map snd (zip [t..<n] (drop t (map fst recs))) = drop t (map fst recs)"
    by (intro map_snd_zip) (simp add: n_def)
  have c3: "t = 4 * n div 5" by (simp add: t_def train_size_eq)
  have c4: "rows (fst (split_frame t X)) = take t (rows X)"
    and c5: "rows (snd (split_frame t X)) = drop t (rows X)"
    by (simp_all add: split_frame_def)
  have c6: "map fst (rows (fst (split_frame t X))) = [0..<t]"
    and c7: "map fst (rows (snd (split_frame t X))) = [t..<n]"
    unfolding c4 c5 by (rule tr, rule te)
  have c8: "fst (split_series t (date_column recs)) = zip [0..<t] (take t (map fst recs))"
    and c9: "snd (split_series t (date_column recs)) = zip [t..<n] (drop t (map fst recs))"
    by (simp_all add: split_series_def dtr dte)
  have c10: "\<forall>d\<in>set (map snd (fst (split_series t (date_column recs)))).
               \<forall>d'\<in>set (map snd (snd (split_series t (date_column recs)))). d \<le> d'"
    unfolding c8 c9 s1 s2 by (rule ord)
  have "generate_predictions lib cols recs
              = train_and_score lib (split_frame t X) (split_series t y)
                  (snd (split_series t (date_column recs)))
          \<and> length (rows X) = n \<and> t = 4 * n div 5
          \<and> rows (fst (split_frame t X)) = take t (rows X)
          \<and> rows (snd (split_frame t X)) = drop t (rows X)
          \<and> map fst (rows (fst (split_frame t X))) = [0..<t]
          \<and> map fst (rows (snd (split_frame t X))) = [t..<n]
          \<and> fst (split_series t (date_column recs)) = zip [0..<t] (take t (map fst recs))
          \<and> snd (split_series t (date_column recs)) = zip [t..<n] (drop t (map fst recs))
          \<and> (\<forall>d\<in>set (map snd (fst (split_series t (date_column recs)))).
               \<forall>d'\<in>set (map snd (snd (split_series t (date_column recs)))). d \<le> d')"
    by (intro conjI gp len c3 c4 c5 c6 c7 c8 c9 c10)
  then show ?thesis
    unfolding n_def t_def Let_def .
qed

theorem split_positional_ordered_witness:
  "prepare (example_library True) (numeric_frame yahoo_columns seven_days)
     = Inr (eight_days_X, eight_days_y)
   \<and> list_all (\<lambda>(d, r). complete_row r) seven_days
   \<and> sorted (map fst seven_days)
   \<and> train_size (length seven_days) = 5
   \<and> map snd (fst (split_series 5 (date_column seven_days)))
       = [20210104, 20210105, 20210107, 20210108, 20210111]
   \<and> map snd (snd (split_series 5 (date_column seven_days))) = [20210112, 20210113]
   \<and> map fst (rows (snd (split_frame 5 eight_days_X))) = [5, 6]"
proof -
  have s: "sorted (map fst seven_days)"
    by (simp add: seven_days_eq)
  have t: "train_size (length seven_days) = 5"
    by (simp add: seven_days_eq train_size_eq)
  have l: "length seven_days = 7" and t7: "train_size 7 = 5"
    by (simp_all add: seven_days_eq train_size_eq)
  from split_positional_ordered [OF prepare_seven_days [of True] seven_days_complete s]
  have "map fst (rows (snd (split_frame 5 eight_days_X))) = [5..<7]
      \<and> fst (split_series 5 (date_column seven_days))
          = zip [0..<5] (take 5 (map fst seven_days))
      \<and> snd (split_series 5 (date_column seven_days))
          = zip [5..<7] (drop 5 (map fst seven_days))"
    unfolding Let_def l t7 by blast
  then show ?thesis
    using s t prepare_seven_days [of True] seven_days_complete
    by (simp add: seven_days_eq upt_rec)
qed

section \<open>Dates of the test rows\<close>

text \<open>
  Claim C1 fails on the code when cleaning drops a row. The date column is set
  aside before cleaning and is split at the same position as the cleaned,
  relabelled frame. On the example, whose third record is dropped, the run returns
  three test dates for two test rows: the first returned date, 2021-01-11, is the
  date of the last training row; the test rows are the records labelled 6 and 7 of
  the file, of 2021-01-12 and 2021-01-13.
\<close>

theorem dates_test_misaligned:
  "map_sum id (\<lambda>b. (map snd (dates_test b), map fst (y_test b), length (y_test b)))
     (generate_predictions (example_library True) yahoo_columns eight_days)
     = Inr ([20210111, 20210112, 20210113], [5, 6], 2)
   \<and> train_size (length (rows (clean_data (numeric_frame yahoo_columns eight_days)))) = 5
   \<and> map (\<lambda>l. map fst eight_days ! l)
         (drop 5 (map fst (rows (clean_data (numeric_frame yahoo_columns eight_days)))))
       = [20210112, 20210113]"
proof -
  obtain b :: "nat prediction_bundle"
    where b: "generate_predictions (example_library True) yahoo_columns eight_days = Inr b"
      and d: "dates_test b = [(5, 20210111), (6, 20210112), (7, 20210113)]"
      and y: "y_test b = [(5, Some (6 / 7)), (6, Some 1)]"
    by (rule run_eight_days_Inr)
  have t: "train_size 7 = 5" by (simp add: train_size_eq)
  have "map (\<lambda>l. map fst eight_days ! l) (drop 5 (map fst (rows eight_days_clean)))
          = [20210112, 20210113]"
    by (simp add: eight_days_clean_def eight_days_def)
  then show ?thesis
    by (simp add: b d y clean_eight_days) (simp add: eight_days_clean_def train_size_eq)
qed

end
